theory Spec2Isabelle
  imports Main
begin

section \<open>Data model\<close>

text \<open>
  \<^verbatim>\<open>DNSRecord\<close> of \<^verbatim>\<open>vultr_api.py\<close>. The fields carry the prefix \<open>rec_\<close> because
  \<^verbatim>\<open>DomainConfig\<close> and \<^verbatim>\<open>DNSUpdateResult\<close> reuse the names \<^verbatim>\<open>ttl\<close>, \<^verbatim>\<open>domain\<close>, ...
\<close>

record dns_record =
  rec_id :: string
  rec_type :: string
  rec_name :: string
  rec_data :: string
  rec_ttl :: int
  rec_priority :: "int option"

text \<open>\<^verbatim>\<open>DomainConfig\<close> of \<^verbatim>\<open>config.py\<close>.\<close>

record domain_config =
  cfg_domain :: string
  cfg_subdomain :: string
  cfg_record_type :: string
  cfg_ttl :: int

text \<open>
  Exceptions are values. \<open>VultrAPIError msg\<close> is the class of that name, \<open>msg\<close> being
  \<^verbatim>\<open>str(e)\<close>; \<open>OtherException msg\<close> is any exception outside that class (a
  \<^verbatim>\<open>KeyError\<close> on a malformed body, for instance), which \<^verbatim>\<open>except VultrAPIError\<close> does
  not catch and \<^verbatim>\<open>except Exception\<close> does.
\<close>

datatype exn = VultrAPIError string | OtherException string

section \<open>The outside world\<close>

text \<open>
  A request as \<^verbatim>\<open>_request(method, endpoint, json=payload)\<close> sends it. A payload is the
  Python dict in insertion order.
\<close>

datatype json = JStr string | JInt int

type_synonym payload = "(string \<times> json) list"

record request =
  req_method :: string
  req_endpoint :: string
  req_json :: "payload option"

text \<open>
  The decoded body that \<^verbatim>\<open>_request\<close> returns: a dict which may have the key
  \<^verbatim>\<open>'records'\<close> (the listing) and the key \<^verbatim>\<open>'record'\<close> (one record), its records
  already read by \<^verbatim>\<open>DNSRecord.from_api_response\<close>.
\<close>

record response =
  body_records :: "dns_record list option"
  body_record :: "dns_record option"

datatype reply = Raises exn | Returns response

type_synonym timestamp = int

text \<open>
  Everything the program does not decide itself is an oracle over a state \<open>'n\<close> of the
  outside: the provider's answer to a request, the text an IP echo service returns
  (\<open>None\<close> when \<^verbatim>\<open>requests.get\<close> or \<^verbatim>\<open>raise_for_status\<close> raises), the reading of
  \<^verbatim>\<open>datetime.now()\<close>, and whether \<^verbatim>\<open>socket.inet_pton(socket.AF_INET6, ip)\<close> returns
  (\<open>True\<close>) or raises (\<open>False\<close>).
\<close>

record 'n env =
  provider :: "'n \<Rightarrow> request \<Rightarrow> reply \<times> 'n"
  ip_service :: "'n \<Rightarrow> string \<Rightarrow> string option \<times> 'n"
  clock :: "'n \<Rightarrow> timestamp \<times> 'n"
  inet_pton6 :: "string \<Rightarrow> bool"

text \<open>The world: the state of the outside and the log of the requests sent to the provider, oldest first.\<close>

record 'n world =
  net :: 'n
  calls :: "request list"

section \<open>VultrAPIClient\<close>

text \<open>
  \<^verbatim>\<open>_request\<close>: the request is sent, and entered in the log, whether or not it then
  raises. What the program writes with \<^verbatim>\<open>logger\<close> changes no value and is left out
  throughout.
\<close>

definition request :: "'n env \<Rightarrow> 'n world \<Rightarrow> string \<Rightarrow> string \<Rightarrow> payload option \<Rightarrow> reply \<times> 'n world" where
  "request E w method endpoint js =
     (let rq = \<lparr>req_method = method, req_endpoint = endpoint, req_json = js\<rparr>;
          (rep, n') = provider E (net w) rq
      in (rep, \<lparr>net = n', calls = calls w @ [rq]\<rparr>))"

definition list_dns_records :: "'n env \<Rightarrow> 'n world \<Rightarrow> string \<Rightarrow> (exn + dns_record list) \<times> 'n world" where
  "list_dns_records E w domain =
     (case request E w ''GET'' (''/domains/'' @ domain @ ''/records'') None of
        (Raises e, w') \<Rightarrow> (Inl e, w')
      | (Returns body, w') \<Rightarrow>
          (Inr (case body_records body of None \<Rightarrow> [] | Some rs \<Rightarrow> rs), w'))"

text \<open>
  \<^verbatim>\<open>response['record']\<close> raises \<^verbatim>\<open>KeyError\<close> on a body without that key, while
  \<^verbatim>\<open>response.get('records', [])\<close> takes a body without a listing for an empty one.
\<close>

definition create_dns_record ::
  "'n env \<Rightarrow> 'n world \<Rightarrow> string \<Rightarrow> string \<Rightarrow> string \<Rightarrow> string \<Rightarrow> int \<Rightarrow> int option
     \<Rightarrow> (exn + dns_record) \<times> 'n world" where
  "create_dns_record E w domain name record_type data ttl priority =
     (let payload = [(''name'', JStr name), (''type'', JStr record_type),
                     (''data'', JStr data), (''ttl'', JInt ttl)]
                    @ (case priority of None \<Rightarrow> [] | Some p \<Rightarrow> [(''priority'', JInt p)])
      in case request E w ''POST'' (''/domains/'' @ domain @ ''/records'') (Some payload) of
           (Raises e, w') \<Rightarrow> (Inl e, w')
         | (Returns body, w') \<Rightarrow>
             (case body_record body of
                None \<Rightarrow> (Inl (OtherException (CHR 0x27 # ''record'' @ [CHR 0x27])), w')
              | Some r \<Rightarrow> (Inr r, w')))"

definition update_dns_record ::
  "'n env \<Rightarrow> 'n world \<Rightarrow> string \<Rightarrow> string \<Rightarrow> string option \<Rightarrow> string option \<Rightarrow> int option
     \<Rightarrow> int option \<Rightarrow> (exn + unit) \<times> 'n world" where
  "update_dns_record E w domain record_id data name ttl priority =
     (let payload = (case data of None \<Rightarrow> [] | Some d \<Rightarrow> [(''data'', JStr d)])
                    @ (case name of None \<Rightarrow> [] | Some n \<Rightarrow> [(''name'', JStr n)])
                    @ (case ttl of None \<Rightarrow> [] | Some t \<Rightarrow> [(''ttl'', JInt t)])
                    @ (case priority of None \<Rightarrow> [] | Some p \<Rightarrow> [(''priority'', JInt p)])
      in if payload = [] then (Inr (), w)
         else case request E w ''PATCH'' (''/domains/'' @ domain @ ''/records/'' @ record_id)
                     (Some payload) of
                (Raises e, w') \<Rightarrow> (Inl e, w')
              | (Returns body, w') \<Rightarrow> (Inr (), w'))"

text \<open>\<^verbatim>\<open>find_dns_record\<close>: the candidate names, then the \<^verbatim>\<open>for\<close> loop over the listing.\<close>

definition target_names :: "string \<Rightarrow> string \<Rightarrow> string list" where
  "target_names domain subdomain =
     (if subdomain \<noteq> [] then [subdomain, subdomain @ ''.'' @ domain, subdomain @ ''.'']
      else ['''', ''@'', domain, domain @ ''.''])"

fun find_loop :: "string list \<Rightarrow> string \<Rightarrow> dns_record list \<Rightarrow> dns_record option" where
  "find_loop names record_type [] = None"
| "find_loop names record_type (r # rs) =
     (if rec_type r = record_type \<and> rec_name r \<in> set names then Some r
      else find_loop names record_type rs)"

definition find_dns_record ::
  "'n env \<Rightarrow> 'n world \<Rightarrow> string \<Rightarrow> string \<Rightarrow> string \<Rightarrow> (exn + dns_record option) \<times> 'n world" where
  "find_dns_record E w domain subdomain record_type =
     (case list_dns_records E w domain of
        (Inl e, w') \<Rightarrow> (Inl e, w')
      | (Inr records, w') \<Rightarrow> (Inr (find_loop (target_names domain subdomain) record_type records), w'))"

text \<open>\<^verbatim>\<open>"TTL" in str(ttl_error)\<close>: the substring test.\<close>

fun contains :: "string \<Rightarrow> string \<Rightarrow> bool" where
  "contains pat [] = (pat = [])"
| "contains pat (c # cs) = (take (length pat) (c # cs) = pat \<or> contains pat cs)"

definition common_ttls :: "int list" where
  "common_ttls = [3600, 1800, 7200, 300, 600]"

text \<open>
  The \<^verbatim>\<open>for try_ttl in common_ttls\<close> loop. \<open>Some res\<close>: the loop left the function
  (\<^verbatim>\<open>return\<close>, or an exception that \<^verbatim>\<open>except VultrAPIError\<close> does not catch);
  \<open>None\<close>: the loop ran to its end.
\<close>

fun retry_common_ttls ::
  "'n env \<Rightarrow> 'n world \<Rightarrow> string \<Rightarrow> string \<Rightarrow> string \<Rightarrow> string \<Rightarrow> int \<Rightarrow> int list
     \<Rightarrow> (exn + unit) option \<times> 'n world" where
  "retry_common_ttls E w domain name record_type ip_address ttl [] = (None, w)"
| "retry_common_ttls E w domain name record_type ip_address ttl (try_ttl # rest) =
     (if try_ttl \<noteq> ttl then
        (case create_dns_record E w domain name record_type ip_address try_ttl None of
           (Inr r, w') \<Rightarrow> (Some (Inr ()), w')
         | (Inl (VultrAPIError m), w') \<Rightarrow>
             retry_common_ttls E w' domain name record_type ip_address ttl rest
         | (Inl (OtherException m), w') \<Rightarrow> (Some (Inl (OtherException m)), w'))
      else retry_common_ttls E w domain name record_type ip_address ttl rest)"

text \<open>The handler \<^verbatim>\<open>except VultrAPIError as e\<close> of the outer \<^verbatim>\<open>try\<close> (lines 203 to 225).\<close>

definition create_fallback ::
  "'n env \<Rightarrow> 'n world \<Rightarrow> string \<Rightarrow> string \<Rightarrow> string \<Rightarrow> string \<Rightarrow> int \<Rightarrow> (exn + unit) \<times> 'n world" where
  "create_fallback E w domain name record_type ip_address ttl =
     (case create_dns_record E w domain name record_type ip_address ttl None of
        (Inr r, w1) \<Rightarrow> (Inr (), w1)
      | (Inl (OtherException m), w1) \<Rightarrow> (Inl (OtherException m), w1)
      | (Inl (VultrAPIError ttl_error), w1) \<Rightarrow>
          (if contains ''TTL'' ttl_error then
             (case retry_common_ttls E w1 domain name record_type ip_address ttl common_ttls of
                (Some res, w2) \<Rightarrow> (res, w2)
              | (None, w2) \<Rightarrow> (Inl (VultrAPIError ttl_error), w2))
           else (Inl (VultrAPIError ttl_error), w1)))"

text \<open>The \<^verbatim>\<open>else\<close> branch for a new record (lines 189 to 225): the outer \<^verbatim>\<open>try\<close> and its handler.\<close>

definition create_new_record ::
  "'n env \<Rightarrow> 'n world \<Rightarrow> string \<Rightarrow> string \<Rightarrow> string \<Rightarrow> string \<Rightarrow> int \<Rightarrow> (exn + unit) \<times> 'n world" where
  "create_new_record E w domain name record_type ip_address ttl =
     (case list_dns_records E w domain of
        (Inl (OtherException m), w1) \<Rightarrow> (Inl (OtherException m), w1)
      | (Inl (VultrAPIError e), w1) \<Rightarrow>
          create_fallback E w1 domain name record_type ip_address ttl
      | (Inr all_records, w1) \<Rightarrow>
          (let ttl1 = (case all_records of [] \<Rightarrow> ttl
                       | first # others \<Rightarrow> (if ttl \<noteq> rec_ttl first then rec_ttl first else ttl))
           in case create_dns_record E w1 domain name record_type ip_address ttl1 None of
                (Inr r, w2) \<Rightarrow> (Inr (), w2)
              | (Inl (OtherException m), w2) \<Rightarrow> (Inl (OtherException m), w2)
              | (Inl (VultrAPIError e), w2) \<Rightarrow>
                  create_fallback E w2 domain name record_type ip_address ttl1))"

definition update_or_create_dns_record ::
  "'n env \<Rightarrow> 'n world \<Rightarrow> string \<Rightarrow> string \<Rightarrow> string \<Rightarrow> string \<Rightarrow> int \<Rightarrow> (exn + unit) \<times> 'n world" where
  "update_or_create_dns_record E w domain subdomain ip_address record_type ttl =
     (case find_dns_record E w domain subdomain record_type of
        (Inl e, w1) \<Rightarrow> (Inl e, w1)
      | (Inr existing_record, w1) \<Rightarrow>
          (let name = (if subdomain \<noteq> [] then subdomain else ''@'')
           in case existing_record of
                Some r \<Rightarrow>
                  (if rec_data r \<noteq> ip_address
                   then update_dns_record E w1 domain (rec_id r) (Some ip_address) None None None
                   else (Inr (), w1))
              | None \<Rightarrow> create_new_record E w1 domain name record_type ip_address ttl))"

section \<open>IPMonitor\<close>

text \<open>
  Python's \<^verbatim>\<open>str.strip()\<close>, \<^verbatim>\<open>str.split('.')\<close> and \<^verbatim>\<open>int(str)\<close>, on strings whose
  characters are code points below 256. \<^verbatim>\<open>str.strip()\<close> drops the characters for which
  \<^verbatim>\<open>str.isspace\<close> holds, the separators U+001C to U+001F among them.
\<close>

definition py_isspace :: "char \<Rightarrow> bool" where
  "py_isspace c \<longleftrightarrow>
     c \<in> {CHR 0x09, CHR 0x0A, CHR 0x0B, CHR 0x0C, CHR 0x0D, CHR 0x1C, CHR 0x1D, CHR 0x1E,
          CHR 0x1F, CHR 0x20, CHR 0x85, CHR 0xA0}"

definition strip :: "string \<Rightarrow> string" where
  "strip s = rev (dropWhile py_isspace (rev (dropWhile py_isspace s)))"

fun split_on :: "char \<Rightarrow> string \<Rightarrow> string list" where
  "split_on sep [] = [[]]"
| "split_on sep (c # cs) =
     (if c = sep then [] # split_on sep cs
      else (case split_on sep cs of
              part # parts \<Rightarrow> (c # part) # parts
            | [] \<Rightarrow> [[c]]))"

definition is_digit :: "char \<Rightarrow> bool" where
  "is_digit c \<longleftrightarrow> c \<in> set ''0123456789''"

definition digit_val :: "char \<Rightarrow> int" where
  "digit_val c = int (of_char c) - 48"

fun int_digits :: "int \<Rightarrow> string \<Rightarrow> int option" where
  "int_digits acc [] = Some acc"
| "int_digits acc [c] = (if is_digit c then Some (10 * acc + digit_val c) else None)"
| "int_digits acc (c # d # ds) =
     (if is_digit c then int_digits (10 * acc + digit_val c) (d # ds)
      else if c = CHR ''_'' \<and> is_digit d then int_digits (10 * acc + digit_val d) ds
      else None)"

text \<open>
  \<^verbatim>\<open>int(str)\<close> in base 10. It skips whitespace at both ends, and its whitespace is not
  that of \<^verbatim>\<open>str.strip()\<close>: the characters U+001C to U+001F are left in place and make
  it raise \<^verbatim>\<open>ValueError\<close>. Then come one optional sign and the decimal digits, single
  underscores allowed between digits. A string of more than 4300 digits
  (\<^verbatim>\<open>sys.int_info.default_max_str_digits\<close>) raises \<^verbatim>\<open>ValueError\<close> as well. \<open>None\<close> is
  \<^verbatim>\<open>ValueError\<close>.
\<close>

definition int_isspace :: "char \<Rightarrow> bool" where
  "int_isspace c \<longleftrightarrow>
     c \<in> {CHR 0x09, CHR 0x0A, CHR 0x0B, CHR 0x0C, CHR 0x0D, CHR 0x20, CHR 0x85, CHR 0xA0}"

definition int_strip :: "string \<Rightarrow> string" where
  "int_strip s = rev (dropWhile int_isspace (rev (dropWhile int_isspace s)))"

definition max_str_digits :: nat where
  "max_str_digits = 4300"

definition py_int :: "string \<Rightarrow> int option" where
  "py_int s =
     (let body = int_strip s;
          (sign, ds) = (case body of
                          c # cs \<Rightarrow> if c = CHR ''-'' then (- 1, cs)
                                    else if c = CHR ''+'' then (1, cs) else (1, body)
                        | [] \<Rightarrow> (1, body))
      in case ds of
           [] \<Rightarrow> None
         | d # rest \<Rightarrow>
             if \<not> is_digit d then None
             else if max_str_digits < length (filter is_digit ds) then None
             else map_option (\<lambda>v. sign * v) (int_digits (digit_val d) rest))"

text \<open>
  \<^verbatim>\<open>_validate_ip\<close>. The loop over the four parts returns \<open>False\<close> where \<^verbatim>\<open>int(part)\<close>
  raises \<^verbatim>\<open>ValueError\<close> (caught by the \<^verbatim>\<open>except\<close>) or the number is out of range.
\<close>

fun parts_ok :: "string list \<Rightarrow> bool" where
  "parts_ok [] = True"
| "parts_ok (part # parts) =
     (case py_int part of
        None \<Rightarrow> False
      | Some num \<Rightarrow> if num < 0 \<or> num > 255 then False else parts_ok parts)"

definition validate_ip :: "'n env \<Rightarrow> string \<Rightarrow> bool" where
  "validate_ip E ip =
     (let parts = split_on CHR ''.'' ip
      in if length parts = 4 then parts_ok parts else inet_pton6 E ip)"

definition IP_SERVICES :: "string list" where
  "IP_SERVICES = [''https://api.ipify.org'', ''https://ipapi.co/ip'',
     ''https://checkip.amazonaws.com'', ''https://ifconfig.me/ip'',
     ''https://icanhazip.com'', ''https://ident.me'']"

fun get_public_ip_loop :: "'n env \<Rightarrow> 'n \<Rightarrow> string list \<Rightarrow> string option \<times> 'n" where
  "get_public_ip_loop E n [] = (None, n)"
| "get_public_ip_loop E n (service # services) =
     (case ip_service E n service of
        (None, n') \<Rightarrow> get_public_ip_loop E n' services
      | (Some text, n') \<Rightarrow>
          (let ip = strip text
           in if validate_ip E ip then (Some ip, n') else get_public_ip_loop E n' services))"

definition get_public_ip :: "'n env \<Rightarrow> 'n \<Rightarrow> string option \<times> 'n" where
  "get_public_ip E n = get_public_ip_loop E n IP_SERVICES"

record monitor =
  current_ip :: "string option"
  last_check :: "timestamp option"
  last_update :: "timestamp option"

definition check_ip_change ::
  "'n env \<Rightarrow> monitor \<Rightarrow> 'n world \<Rightarrow> (bool \<times> string option) \<times> monitor \<times> 'n world" where
  "check_ip_change E m w =
     (let (t, n1) = clock E (net w);
          m1 = m\<lparr>last_check := Some t\<rparr>;
          (new_ip, n2) = get_public_ip E n1;
          w1 = w\<lparr>net := n2\<rparr>
      in case new_ip of
           None \<Rightarrow> ((False, None), m1, w1)
         | Some ip \<Rightarrow>
             (case current_ip m1 of
                None \<Rightarrow> ((True, Some ip), m1\<lparr>current_ip := Some ip\<rparr>, w1)
              | Some old_ip \<Rightarrow>
                  if ip \<noteq> old_ip then ((True, Some ip), m1\<lparr>current_ip := Some ip\<rparr>, w1)
                  else ((False, Some ip), m1, w1)))"

section \<open>DNSUpdater\<close>

text \<open>\<^verbatim>\<open>DNSUpdateResult\<close>; its constructor reads the clock.\<close>

record update_result =
  res_domain :: string
  res_subdomain :: string
  res_success :: bool
  res_old_ip :: "string option"
  res_new_ip :: "string option"
  res_error :: "string option"
  res_timestamp :: timestamp

text \<open>The fields of \<^verbatim>\<open>DNSUpdater\<close> that change or are read: \<^verbatim>\<open>config.domains\<close>, \<^verbatim>\<open>ip_monitor\<close>, \<^verbatim>\<open>update_history\<close>.\<close>

record dns_updater =
  config_domains :: "domain_config list"
  ip_monitor :: monitor
  update_history :: "update_result list"

text \<open>
  The body of the \<^verbatim>\<open>try\<close> in \<^verbatim>\<open>_update_single_domain\<close>: the lookup for the old
  address, then the reconciliation. It yields \<^verbatim>\<open>old_ip\<close> or the exception raised.
\<close>

definition try_update_single_domain ::
  "'n env \<Rightarrow> 'n world \<Rightarrow> domain_config \<Rightarrow> string \<Rightarrow> (exn + string option) \<times> 'n world" where
  "try_update_single_domain E w domain_config ip_address =
     (case find_dns_record E w (cfg_domain domain_config) (cfg_subdomain domain_config)
             (cfg_record_type domain_config) of
        (Inl e, w1) \<Rightarrow> (Inl e, w1)
      | (Inr existing_record, w1) \<Rightarrow>
          (let old_ip = map_option rec_data existing_record
           in case update_or_create_dns_record E w1 (cfg_domain domain_config)
                     (cfg_subdomain domain_config) ip_address (cfg_record_type domain_config)
                     (cfg_ttl domain_config) of
                (Inl e, w2) \<Rightarrow> (Inl e, w2)
              | (Inr u, w2) \<Rightarrow> (Inr old_ip, w2)))"

definition update_single_domain ::
  "'n env \<Rightarrow> 'n world \<Rightarrow> domain_config \<Rightarrow> string \<Rightarrow> update_result \<times> 'n world" where
  "update_single_domain E w domain_config ip_address =
     (let (outcome, w1) = try_update_single_domain E w domain_config ip_address;
          (t, n') = clock E (net w1);
          w2 = w1\<lparr>net := n'\<rparr>
      in case outcome of
           Inr old_ip \<Rightarrow>
             (\<lparr>res_domain = cfg_domain domain_config, res_subdomain = cfg_subdomain domain_config,
               res_success = True, res_old_ip = old_ip, res_new_ip = Some ip_address,
               res_error = None, res_timestamp = t\<rparr>, w2)
         | Inl (VultrAPIError m) \<Rightarrow>
             (\<lparr>res_domain = cfg_domain domain_config, res_subdomain = cfg_subdomain domain_config,
               res_success = False, res_old_ip = None, res_new_ip = None,
               res_error = Some m, res_timestamp = t\<rparr>, w2)
         | Inl (OtherException m) \<Rightarrow>
             (\<lparr>res_domain = cfg_domain domain_config, res_subdomain = cfg_subdomain domain_config,
               res_success = False, res_old_ip = None, res_new_ip = None,
               res_error = Some (''Unexpected error: '' @ m), res_timestamp = t\<rparr>, w2))"

text \<open>
  \<^verbatim>\<open>update_all_domains\<close>: the loop over \<^verbatim>\<open>self.config.domains\<close>, with the list
  \<^verbatim>\<open>results\<close> built so far. The one second of sleep between targets changes no state.
\<close>

fun update_all_loop ::
  "'n env \<Rightarrow> dns_updater \<Rightarrow> 'n world \<Rightarrow> string \<Rightarrow> update_result list \<Rightarrow> domain_config list
     \<Rightarrow> update_result list \<times> dns_updater \<times> 'n world" where
  "update_all_loop E u w ip_address results [] = (results, u, w)"
| "update_all_loop E u w ip_address results (domain_config # rest) =
     (let (result, w1) = update_single_domain E w domain_config ip_address
      in update_all_loop E (u\<lparr>update_history := update_history u @ [result]\<rparr>) w1 ip_address
           (results @ [result]) rest)"

definition update_all_domains ::
  "'n env \<Rightarrow> dns_updater \<Rightarrow> 'n world \<Rightarrow> string \<Rightarrow> update_result list \<times> dns_updater \<times> 'n world" where
  "update_all_domains E u w ip_address = update_all_loop E u w ip_address [] (config_domains u)"

text \<open>
  \<^verbatim>\<open>check_and_update\<close>. \<^verbatim>\<open>has_changed and new_ip\<close> is true when the flag is set and the
  address is neither \<^verbatim>\<open>None\<close> nor the empty string. Every failure of the outside is a value here, so the
  handler \<^verbatim>\<open>except Exception\<close> has no run to catch.
\<close>

definition check_and_update ::
  "'n env \<Rightarrow> dns_updater \<Rightarrow> 'n world \<Rightarrow> bool \<times> dns_updater \<times> 'n world" where
  "check_and_update E u w =
     (let ((has_changed, new_ip), m1, w1) = check_ip_change E (ip_monitor u) w;
          u1 = u\<lparr>ip_monitor := m1\<rparr>
      in case new_ip of
           None \<Rightarrow> (True, u1, w1)
         | Some ip \<Rightarrow>
             if has_changed \<and> ip \<noteq> [] then
               (let (results, u2, w2) = update_all_domains E u1 w1 ip;
                    success_count = length (filter res_success results);
                    total_count = length results
                in if success_count = total_count then
                     (let (t, n') = clock E (net w2)
                      in (True, u2\<lparr>ip_monitor := (ip_monitor u2)\<lparr>last_update := Some t\<rparr>\<rparr>,
                          w2\<lparr>net := n'\<rparr>))
                   else if success_count > 0 then (False, u2, w2)
                   else (False, u2, w2))
             else (True, u1, w1))"

section \<open>A replayed transcript of the outside\<close>

text \<open>
  A concrete outside for the runs below: the provider answers the k-th request with the
  k-th reply of a transcript (a refused connection once it is used up), the echo services
  likewise, the clock counts its readings, and the host has no IPv6 support, so that
  \<^verbatim>\<open>inet_pton\<close> raises \<^verbatim>\<open>OSError\<close> on every string.
\<close>

record transcript =
  api_replies :: "reply list"
  echo_replies :: "string option list"
  ticks :: int

definition replay :: "transcript env" where
  "replay =
     \<lparr>provider = (\<lambda>n rq. case api_replies n of
                     [] \<Rightarrow> (Raises (VultrAPIError ''Request failed: connection refused''), n)
                   | r # rs \<Rightarrow> (r, n\<lparr>api_replies := rs\<rparr>)),
      ip_service = (\<lambda>n service. case echo_replies n of
                     [] \<Rightarrow> (None, n)
                   | r # rs \<Rightarrow> (r, n\<lparr>echo_replies := rs\<rparr>)),
      clock = (\<lambda>n. (ticks n, n\<lparr>ticks := ticks n + 1\<rparr>)),
      inet_pton6 = (\<lambda>ip. False)\<rparr>"

definition listing :: "dns_record list \<Rightarrow> reply" where
  "listing rs = Returns \<lparr>body_records = Some rs, body_record = None\<rparr>"

definition created :: "dns_record \<Rightarrow> reply" where
  "created r = Returns \<lparr>body_records = None, body_record = Some r\<rparr>"

definition no_content :: reply where
  "no_content = Returns \<lparr>body_records = None, body_record = None\<rparr>"

definition a_record :: "string \<Rightarrow> string \<Rightarrow> string \<Rightarrow> int \<Rightarrow> dns_record" where
  "a_record i name data ttl =
     \<lparr>rec_id = i, rec_type = ''A'', rec_name = name, rec_data = data, rec_ttl = ttl,
      rec_priority = None\<rparr>"

definition start :: "reply list \<Rightarrow> string option list \<Rightarrow> transcript world" where
  "start rs es = \<lparr>net = \<lparr>api_replies = rs, echo_replies = es, ticks = 0\<rparr>, calls = []\<rparr>"

section \<open>Reading the request log\<close>

text \<open>The three requests the client sends, as \<^verbatim>\<open>_request\<close> logs them.\<close>

definition get_records :: "string \<Rightarrow> request" where
  "get_records domain =
     \<lparr>req_method = ''GET'', req_endpoint = ''/domains/'' @ domain @ ''/records'', req_json = None\<rparr>"

definition post_record :: "string \<Rightarrow> string \<Rightarrow> string \<Rightarrow> string \<Rightarrow> int \<Rightarrow> request" where
  "post_record domain name record_type data ttl =
     \<lparr>req_method = ''POST'', req_endpoint = ''/domains/'' @ domain @ ''/records'',
      req_json = Some [(''name'', JStr name), (''type'', JStr record_type),
                       (''data'', JStr data), (''ttl'', JInt ttl)]\<rparr>"

definition patch_record :: "string \<Rightarrow> string \<Rightarrow> payload \<Rightarrow> request" where
  "patch_record domain rid p =
     \<lparr>req_method = ''PATCH'', req_endpoint = ''/domains/'' @ domain @ ''/records/'' @ rid,
      req_json = Some p\<rparr>"

definition count_method :: "string \<Rightarrow> request list \<Rightarrow> nat" where
  "count_method m rqs = length (filter (\<lambda>rq. req_method rq = m) rqs)"

definition ttl_of :: "request \<Rightarrow> json option" where
  "ttl_of rq = (case req_json rq of None \<Rightarrow> None | Some p \<Rightarrow> map_of p ''ttl'')"

section \<open>Example data\<close>

text \<open>Listings and transcripts for the runs that instantiate the theorems.\<close>

definition ex_rs :: "dns_record list" where
  "ex_rs =
     [a_record ''1'' ''bloggy'' ''198.51.100.1'' 300,
      (a_record ''2'' ''blog.example.com'' ''2001:db8::1'' 300)\<lparr>rec_type := ''AAAA''\<rparr>,
      a_record ''3'' ''blog.'' ''198.51.100.3'' 300,
      a_record ''4'' ''blog'' ''198.51.100.4'' 300]"

definition home :: dns_record where
  "home = a_record ''rec-1'' ''home'' ''198.51.100.4'' 3600"

definition w_patch :: "transcript world" where
  "w_patch = start [listing [home], no_content,
                    listing [home\<lparr>rec_data := ''203.0.113.7''\<rparr>]] []"

definition w_new :: "transcript world" where
  "w_new = start [listing [home], listing [home],
                  created (a_record ''rec-2'' ''blog'' ''203.0.113.7'' 3600)] []"

definition w_empty :: "transcript world" where
  "w_empty = start [listing [], listing [],
                    created (a_record ''rec-1'' '''' ''203.0.113.7'' 300)] []"

definition w_same :: "transcript world" where
  "w_same = start [listing [home\<lparr>rec_data := ''203.0.113.7''\<rparr>]] []"

text \<open>
  A provider that depends on what it is asked: it has no record for any domain, refuses
  a creation at TTL 300 with a TTL error, and accepts any other creation.
\<close>

definition no_ttl_300 :: "unit env" where
  "no_ttl_300 =
     \<lparr>provider = (\<lambda>n rq.
         if req_method rq = ''POST'' then
           (if ttl_of rq = Some (JInt 300)
            then (Raises (VultrAPIError ''VULTR API error: Invalid TTL''), n)
            else (created (a_record ''rec-1'' ''blog'' ''203.0.113.7'' 3600), n))
         else (listing [], n)),
      ip_service = (\<lambda>n service. (None, n)),
      clock = (\<lambda>n. (0, n)),
      inet_pton6 = (\<lambda>ip. False)\<rparr>"

text \<open>A transcript in which the listing for the TTL fails, and so does the creation at TTL 300.\<close>

definition w_unlisted :: "transcript world" where
  "w_unlisted = start [listing [], Raises (VultrAPIError ''Request failed: timed out''),
                  Raises (VultrAPIError ''VULTR API error: Invalid TTL''),
                  created (a_record ''rec-1'' ''blog'' ''203.0.113.7'' 3600)] []"

definition home_target :: domain_config where
  "home_target = \<lparr>cfg_domain = ''example.com'', cfg_subdomain = ''home'',
                   cfg_record_type = ''A'', cfg_ttl = 300\<rparr>"

definition blog_target :: domain_config where
  "blog_target = \<lparr>cfg_domain = ''example.com'', cfg_subdomain = ''blog'',
                   cfg_record_type = ''A'', cfg_ttl = 300\<rparr>"

text \<open>\<^verbatim>\<open>IPMonitor.__init__\<close> and \<^verbatim>\<open>DNSUpdater.__init__\<close>.\<close>

definition new_monitor :: monitor where
  "new_monitor = \<lparr>current_ip = None, last_check = None, last_update = None\<rparr>"

definition new_updater :: "domain_config list \<Rightarrow> dns_updater" where
  "new_updater ds = \<lparr>config_domains = ds, ip_monitor = new_monitor, update_history = []\<rparr>"

definition w_down :: "transcript world" where
  "w_down = start [] []"

definition w_garbage :: "transcript world" where
  "w_garbage = start [] [Some ''<html>busy</html>'', None, Some ''999.1.1.1'']"

definition w_cycle :: "transcript world" where
  "w_cycle = start [listing [home], listing [home], no_content]
                   [Some ''203.0.113.7\<newline>'']"

definition w_retry :: "transcript world" where
  "w_retry = start [] [Some ''203.0.113.7'', Some ''203.0.113.7'']"

text \<open>A transcript in which the first lookup is refused and the provider answers afterwards.\<close>

definition w_fail_first :: "transcript world" where
  "w_fail_first = start [Raises (VultrAPIError ''VULTR API error: Rate limit exceeded''),
                         listing [home], listing [home], no_content]
                        [Some ''203.0.113.7'']"

section \<open>The request log grows by what each operation sends\<close>

lemma request_calls:
  "request E w method endpoint js = (rep, w') \<Longrightarrow>
     calls w' = calls w @ [\<lparr>req_method = method, req_endpoint = endpoint, req_json = js\<rparr>]"
  by (auto simp: request_def Let_def split: prod.splits)

lemma list_dns_records_calls:
  "list_dns_records E w domain = (res, w') \<Longrightarrow> calls w' = calls w @ [get_records domain]"
  by (auto simp: list_dns_records_def get_records_def split: prod.splits reply.splits
           dest: request_calls)

lemma find_dns_record_calls:
  "find_dns_record E w domain subdomain kind = (res, w') \<Longrightarrow>
     calls w' = calls w @ [get_records domain]"
  by (auto simp: find_dns_record_def split: prod.splits sum.splits dest: list_dns_records_calls)

lemma update_dns_record_data_calls:
  "update_dns_record E w domain rid (Some ip) None None None = (res, w') \<Longrightarrow>
     calls w' = calls w @ [\<lparr>req_method = ''PATCH'',
        req_endpoint = ''/domains/'' @ domain @ ''/records/'' @ rid,
        req_json = Some [(''data'', JStr ip)]\<rparr>]"
  by (auto simp: update_dns_record_def split: prod.splits reply.splits dest: request_calls)

lemma create_dns_record_calls:
  "create_dns_record E w domain name kind ip ttl None = (res, w') \<Longrightarrow>
     calls w' = calls w @ [post_record domain name kind ip ttl]"
  by (auto simp: create_dns_record_def post_record_def
           split: prod.splits reply.splits option.splits dest: request_calls)

lemma retry_common_ttls_calls:
  "\<exists>rest. calls (snd (retry_common_ttls E w domain name kind ip ttl ts)) = calls w @ rest"
proof (induction ts arbitrary: w)
  case Nil
  then show ?case by simp
next
  case (Cons t ts)
  show ?case
  proof (cases "t \<noteq> ttl")
    case False
    then show ?thesis using Cons.IH[of w] by simp
  next
    case True
    obtain res w1 where c: "create_dns_record E w domain name kind ip t None = (res, w1)"
      by (cases "create_dns_record E w domain name kind ip t None")
    from create_dns_record_calls[OF c]
    have w1: "calls w1 = calls w @ [post_record domain name kind ip t]" .
    from Cons.IH[of w1] obtain rest where
      r: "calls (snd (retry_common_ttls E w1 domain name kind ip ttl ts)) = calls w1 @ rest"
      by blast
    show ?thesis
      using True c w1 r by (cases res; simp split: exn.splits)
  qed
qed

lemma create_fallback_calls:
  "\<exists>rest. calls (snd (create_fallback E w domain name kind ip ttl)) = calls w @ rest"
proof -
  obtain res w1 where c: "create_dns_record E w domain name kind ip ttl None = (res, w1)"
    by (cases "create_dns_record E w domain name kind ip ttl None")
  from create_dns_record_calls[OF c]
  have w1: "calls w1 = calls w @ [post_record domain name kind ip ttl]" .
  from retry_common_ttls_calls[of E w1 domain name kind ip ttl common_ttls] obtain rest where
    r: "calls (snd (retry_common_ttls E w1 domain name kind ip ttl common_ttls)) = calls w1 @ rest"
    by blast
  show ?thesis
    using c w1 r
    by (cases res; auto simp: create_fallback_def split: exn.splits prod.splits option.splits)
qed

lemma count_method_append:
  "count_method m (xs @ ys) = count_method m xs + count_method m ys"
  by (simp add: count_method_def)

lemmas replay_simps = list_dns_records_def request_def replay_def start_def listing_def
  created_def no_content_def find_dns_record_def target_names_def a_record_def
  update_or_create_dns_record_def update_dns_record_def create_dns_record_def
  create_new_record_def create_fallback_def common_ttls_def get_records_def post_record_def
  patch_record_def

section \<open>The record lookup\<close>

lemma find_loop_None:
  "find_loop names kind rs = None \<longleftrightarrow>
     (\<forall>r\<in>set rs. \<not> (rec_type r = kind \<and> rec_name r \<in> set names))"
  by (induction rs) auto

lemma find_loop_Some:
  "find_loop names kind rs = Some r \<Longrightarrow>
     \<exists>i<length rs. rs ! i = r \<and> rec_type r = kind \<and> rec_name r \<in> set names \<and>
       (\<forall>j<i. \<not> (rec_type (rs ! j) = kind \<and> rec_name (rs ! j) \<in> set names))"
proof (induction rs)
  case Nil
  then show ?case by simp
next
  case (Cons x xs)
  show ?case
  proof (cases "rec_type x = kind \<and> rec_name x \<in> set names")
    case True
    with Cons.prems have "x = r" by simp
    with True show ?thesis by (intro exI[of _ 0]) simp
  next
    case False
    with Cons.prems have "find_loop names kind xs = Some r" by auto
    from Cons.IH[OF this] obtain i where i: "i < length xs" "xs ! i = r"
      "rec_type r = kind" "rec_name r \<in> set names"
      "\<forall>j<i. \<not> (rec_type (xs ! j) = kind \<and> rec_name (xs ! j) \<in> set names)" by blast
    have "\<forall>j<Suc i. \<not> (rec_type ((x # xs) ! j) = kind \<and> rec_name ((x # xs) ! j) \<in> set names)"
      using False i(5) by (auto simp: less_Suc_eq_0_disj)
    with i show ?thesis by (intro exI[of _ "Suc i"]) simp
  qed
qed

lemma set_target_names:
  "set (target_names domain subdomain) =
     (if subdomain \<noteq> [] then {subdomain, subdomain @ ''.'' @ domain, subdomain @ ''.''}
      else {[], ''@'', domain, domain @ ''.''})"
  by (simp add: target_names_def)

section \<open>The monitor and the loop over the targets\<close>

lemma check_ip_change_None:
  assumes "clock E (net w) = (t, n1)" and "get_public_ip E n1 = (None, n2)"
  shows "check_ip_change E m w = ((False, None), m\<lparr>last_check := Some t\<rparr>, w\<lparr>net := n2\<rparr>)"
  using assms by (simp add: check_ip_change_def)

lemma check_ip_change_new:
  assumes "clock E (net w) = (t, n1)" and "get_public_ip E n1 = (Some ip, n2)"
      and "current_ip m \<noteq> Some ip"
  shows "check_ip_change E m w =
     ((True, Some ip), m\<lparr>last_check := Some t, current_ip := Some ip\<rparr>, w\<lparr>net := n2\<rparr>)"
  using assms by (cases "current_ip m") (simp_all add: check_ip_change_def)

lemma check_ip_change_same:
  assumes "clock E (net w) = (t, n1)" and "get_public_ip E n1 = (Some ip, n2)"
      and "current_ip m = Some ip"
  shows "check_ip_change E m w = ((False, Some ip), m\<lparr>last_check := Some t\<rparr>, w\<lparr>net := n2\<rparr>)"
  using assms by (simp add: check_ip_change_def)

lemma check_ip_change_frame:
  assumes "check_ip_change E m w = (r, m1, w1)"
  shows "last_update m1 = last_update m \<and> calls w1 = calls w"
  using assms
  by (auto simp: check_ip_change_def Let_def split: prod.splits option.splits if_splits)

lemma update_single_domain_names:
  assumes "update_single_domain E w d ip = (r, w')"
  shows "res_domain r = cfg_domain d \<and> res_subdomain r = cfg_subdomain d"
  using assms
  by (auto simp: update_single_domain_def Let_def split: prod.splits sum.splits exn.splits)

lemma update_single_domain_raised:
  assumes "try_update_single_domain E w d ip = (Inl (VultrAPIError msg), w1)"
  shows "\<not> res_success (fst (update_single_domain E w d ip))
         \<and> res_error (fst (update_single_domain E w d ip)) = Some msg"
  using assms by (simp add: update_single_domain_def Let_def split: prod.splits)

lemma update_all_loop_results:
  assumes "update_all_loop E u w ip acc ds = (results, u', w')"
  shows "\<exists>new. results = acc @ new \<and> length new = length ds
           \<and> map res_domain new = map cfg_domain ds
           \<and> map res_subdomain new = map cfg_subdomain ds
           \<and> update_history u' = update_history u @ new
           \<and> ip_monitor u' = ip_monitor u \<and> config_domains u' = config_domains u"
  using assms
proof (induction ds arbitrary: u w acc)
  case Nil
  then show ?case by simp
next
  case (Cons d ds)
  obtain r w1 where s: "update_single_domain E w d ip = (r, w1)"
    by (cases "update_single_domain E w d ip")
  let ?u1 = "u\<lparr>update_history := update_history u @ [r]\<rparr>"
  from Cons.prems s
  have "update_all_loop E ?u1 w1 ip (acc @ [r]) ds = (results, u', w')" by simp
  from Cons.IH[OF this] obtain new where new: "results = (acc @ [r]) @ new"
    "length new = length ds" "map res_domain new = map cfg_domain ds"
    "map res_subdomain new = map cfg_subdomain ds"
    "update_history u' = update_history ?u1 @ new"
    "ip_monitor u' = ip_monitor ?u1" "config_domains u' = config_domains ?u1"
    by blast
  from update_single_domain_names[OF s]
  have names: "res_domain r = cfg_domain d" "res_subdomain r = cfg_subdomain d" by simp_all
  show ?case
    using new names by (intro exI[of _ "r # new"]) simp
qed

lemma update_all_domains_results:
  assumes "update_all_domains E u w ip = (results, u', w')"
  shows "length results = length (config_domains u)
         \<and> map res_domain results = map cfg_domain (config_domains u)
         \<and> map res_subdomain results = map cfg_subdomain (config_domains u)
         \<and> update_history u' = update_history u @ results
         \<and> ip_monitor u' = ip_monitor u \<and> config_domains u' = config_domains u"
  using update_all_loop_results[OF assms[unfolded update_all_domains_def]] by auto

lemma all_counted:
  "length (filter P xs) = length xs \<longleftrightarrow> (\<forall>x\<in>set xs. P x)"
proof (induction xs)
  case Nil
  then show ?case by simp
next
  case (Cons x xs)
  have "length (filter P xs) \<noteq> Suc (length xs)"
    using length_filter_le[of P xs] by linarith
  then show ?case using Cons.IH by auto
qed

lemma check_and_update_updates:
  assumes "check_ip_change E (ip_monitor u) w = ((True, Some ip), m1, w1)" and "ip \<noteq> []"
      and "update_all_domains E (u\<lparr>ip_monitor := m1\<rparr>) w1 ip = (results, u2, w2)"
  shows "check_and_update E u w =
     (if \<forall>r\<in>set results. res_success r
      then (True, u2\<lparr>ip_monitor := (ip_monitor u2)\<lparr>last_update := Some (fst (clock E (net w2)))\<rparr>\<rparr>,
            w2\<lparr>net := snd (clock E (net w2))\<rparr>)
      else (False, u2, w2))"
  using assms
  by (simp add: check_and_update_def Let_def all_counted split: prod.splits)

lemma check_and_update_idle:
  assumes "check_ip_change E (ip_monitor u) w = ((False, new_ip), m1, w1)"
  shows "check_and_update E u w = (True, u\<lparr>ip_monitor := m1\<rparr>, w1)"
  using assms by (simp add: check_and_update_def Let_def split: option.splits)

section \<open>Evaluating runs on the transcript\<close>

lemma replay_provider:
  "provider replay \<lparr>api_replies = r # rs, echo_replies = es, ticks = k\<rparr> rq
     = (r, \<lparr>api_replies = rs, echo_replies = es, ticks = k\<rparr>)"
  "provider replay \<lparr>api_replies = [], echo_replies = es, ticks = k\<rparr> rq
     = (Raises (VultrAPIError ''Request failed: connection refused''),
        \<lparr>api_replies = [], echo_replies = es, ticks = k\<rparr>)"
  by (simp_all add: replay_def)

lemma replay_ip_service:
  "ip_service replay \<lparr>api_replies = rs, echo_replies = e # es, ticks = k\<rparr> service
     = (e, \<lparr>api_replies = rs, echo_replies = es, ticks = k\<rparr>)"
  "ip_service replay \<lparr>api_replies = rs, echo_replies = [], ticks = k\<rparr> service
     = (None, \<lparr>api_replies = rs, echo_replies = [], ticks = k\<rparr>)"
  by (simp_all add: replay_def)

lemma replay_clock:
  "clock replay \<lparr>api_replies = rs, echo_replies = es, ticks = k\<rparr>
     = (k, \<lparr>api_replies = rs, echo_replies = es, ticks = k + 1\<rparr>)"
  by (simp add: replay_def)

lemma replay_inet_pton6: "inet_pton6 replay ip = False"
  by (simp add: replay_def)

lemmas client_simps = replay_provider request_def list_dns_records_def find_dns_record_def
  create_dns_record_def update_dns_record_def update_or_create_dns_record_def
  create_new_record_def create_fallback_def common_ttls_def target_names_def
  listing_def created_def no_content_def a_record_def home_def
  get_records_def post_record_def patch_record_def Let_def

lemmas resolver_simps = replay_ip_service replay_inet_pton6 get_public_ip_def IP_SERVICES_def
  validate_ip_def py_int_def int_strip_def int_isspace_def max_str_digits_def strip_def py_isspace_def is_digit_def digit_val_def Let_def

lemma address_is_valid: "validate_ip E ''203.0.113.7''"
  by (simp add: validate_ip_def py_int_def int_strip_def int_isspace_def max_str_digits_def strip_def py_isspace_def is_digit_def digit_val_def)

lemma strip_address: "strip ''203.0.113.7\<newline>'' = ''203.0.113.7''"
  "strip ''203.0.113.7'' = ''203.0.113.7''"
  by (simp_all add: strip_def py_isspace_def)

text \<open>The steps of the example cycles, each evaluated once.\<close>

lemma cycle_detects_change:
  "check_ip_change replay new_monitor w_cycle =
     ((True, Some ''203.0.113.7''),
      \<lparr>current_ip = Some ''203.0.113.7'', last_check = Some 0, last_update = None\<rparr>,
      \<lparr>net = \<lparr>api_replies = [listing [home], listing [home], no_content],
                echo_replies = [], ticks = 1\<rparr>, calls = []\<rparr>)"
  by (simp add: check_ip_change_def new_monitor_def w_cycle_def start_def replay_clock
      replay_ip_service get_public_ip_def IP_SERVICES_def strip_address address_is_valid Let_def)

lemma cycle_updates_home:
  "update_single_domain replay
     \<lparr>net = \<lparr>api_replies = [listing [home], listing [home], no_content],
               echo_replies = [], ticks = 1\<rparr>, calls = []\<rparr>
     home_target ''203.0.113.7'' =
     (\<lparr>res_domain = ''example.com'', res_subdomain = ''home'', res_success = True,
       res_old_ip = Some ''198.51.100.4'', res_new_ip = Some ''203.0.113.7'',
       res_error = None, res_timestamp = 1\<rparr>,
      \<lparr>net = \<lparr>api_replies = [], echo_replies = [], ticks = 2\<rparr>,
       calls = [get_records ''example.com'', get_records ''example.com'',
                patch_record ''example.com'' ''rec-1'' [(''data'', JStr ''203.0.113.7'')]]\<rparr>)"
  by (simp add: update_single_domain_def try_update_single_domain_def home_target_def
      client_simps replay_clock)

lemma cycle_blog_raises:
  "try_update_single_domain replay
     \<lparr>net = \<lparr>api_replies = [], echo_replies = es, ticks = k\<rparr>, calls = cs\<rparr>
     blog_target ''203.0.113.7'' =
     (Inl (VultrAPIError ''Request failed: connection refused''),
      \<lparr>net = \<lparr>api_replies = [], echo_replies = es, ticks = k\<rparr>,
       calls = cs @ [get_records ''example.com'']\<rparr>)"
  by (simp add: try_update_single_domain_def blog_target_def client_simps)

lemma retry_detects_change:
  "check_ip_change replay new_monitor w_retry =
     ((True, Some ''203.0.113.7''),
      \<lparr>current_ip = Some ''203.0.113.7'', last_check = Some 0, last_update = None\<rparr>,
      \<lparr>net = \<lparr>api_replies = [], echo_replies = [Some ''203.0.113.7''], ticks = 1\<rparr>,
       calls = []\<rparr>)"
  by (simp add: check_ip_change_def new_monitor_def w_retry_def start_def replay_clock
      replay_ip_service get_public_ip_def IP_SERVICES_def strip_address address_is_valid Let_def)

lemma retry_updates_blog:
  "update_single_domain replay
     \<lparr>net = \<lparr>api_replies = [], echo_replies = [Some ''203.0.113.7''], ticks = 1\<rparr>,
      calls = []\<rparr> blog_target ''203.0.113.7'' =
     (\<lparr>res_domain = ''example.com'', res_subdomain = ''blog'', res_success = False,
       res_old_ip = None, res_new_ip = None,
       res_error = Some ''Request failed: connection refused'', res_timestamp = 1\<rparr>,
      \<lparr>net = \<lparr>api_replies = [], echo_replies = [Some ''203.0.113.7''], ticks = 2\<rparr>,
       calls = [get_records ''example.com'']\<rparr>)"
  by (simp add: update_single_domain_def try_update_single_domain_def blog_target_def
      client_simps replay_clock)

section \<open>Every target is reconciled\<close>

lemma update_dns_record_calls:
  "\<exists>rest. calls (snd (update_dns_record E w domain rid d n t p)) = calls w @ rest"
  by (auto simp: update_dns_record_def request_def Let_def split: prod.splits reply.splits)

lemma create_new_record_calls:
  "\<exists>rest. calls (snd (create_new_record E w domain name kind ip ttl)) = calls w @ rest"
proof -
  obtain res w1 where l: "list_dns_records E w domain = (res, w1)"
    by (cases "list_dns_records E w domain")
  from list_dns_records_calls[OF l] have w1: "calls w1 = calls w @ [get_records domain]" .
  show ?thesis
  proof (cases res)
    case (Inl e)
    then show ?thesis
      using l w1 create_fallback_calls[of E w1 domain name kind ip ttl]
      by (cases e) (auto simp: create_new_record_def)
  next
    case (Inr all_records)
    define ttl1 where "ttl1 = (case all_records of [] \<Rightarrow> ttl
        | first # others \<Rightarrow> (if ttl \<noteq> rec_ttl first then rec_ttl first else ttl))"
    obtain cres w2 where c: "create_dns_record E w1 domain name kind ip ttl1 None = (cres, w2)"
      by (cases "create_dns_record E w1 domain name kind ip ttl1 None")
    from create_dns_record_calls[OF c]
    have w2: "calls w2 = calls w1 @ [post_record domain name kind ip ttl1]" .
    have run: "create_new_record E w domain name kind ip ttl =
       (case cres of
          Inr r \<Rightarrow> (Inr (), w2)
        | Inl (OtherException m) \<Rightarrow> (Inl (OtherException m), w2)
        | Inl (VultrAPIError e) \<Rightarrow> create_fallback E w2 domain name kind ip ttl1)"
      using l Inr c by (simp add: create_new_record_def Let_def flip: ttl1_def)
    show ?thesis
    proof (cases cres)
      case (Inr r)
      then show ?thesis using run w1 w2 by simp
    next
      case (Inl e)
      then show ?thesis
        using run w1 w2 create_fallback_calls[of E w2 domain name kind ip ttl1]
        by (cases e) auto
    qed
  qed
qed

lemma update_or_create_dns_record_calls:
  "\<exists>rest. calls (snd (update_or_create_dns_record E w domain subdomain ip kind ttl))
     = calls w @ get_records domain # rest"
proof -
  obtain res w1 where f: "find_dns_record E w domain subdomain kind = (res, w1)"
    by (cases "find_dns_record E w domain subdomain kind")
  from find_dns_record_calls[OF f] have w1: "calls w1 = calls w @ [get_records domain]" .
  show ?thesis
  proof (cases res)
    case (Inl e)
    then show ?thesis using f w1 by (simp add: update_or_create_dns_record_def)
  next
    case (Inr existing)
    show ?thesis
    proof (cases existing)
      case None
      then show ?thesis
        using f Inr w1
          create_new_record_calls[of E w1 domain "if subdomain \<noteq> [] then subdomain else ''@''"
            kind ip ttl]
        by (auto simp: update_or_create_dns_record_def Let_def)
    next
      case (Some r)
      then show ?thesis
        using f Inr w1 update_dns_record_calls[of E w1 domain "rec_id r" "Some ip" None None None]
        by (auto simp: update_or_create_dns_record_def Let_def)
    qed
  qed
qed

lemma try_update_single_domain_calls:
  "\<exists>rest. calls (snd (try_update_single_domain E w d ip)) = calls w @ get_records (cfg_domain d) # rest"
proof -
  obtain res w1 where f: "find_dns_record E w (cfg_domain d) (cfg_subdomain d) (cfg_record_type d)
       = (res, w1)"
    by (cases "find_dns_record E w (cfg_domain d) (cfg_subdomain d) (cfg_record_type d)")
  from find_dns_record_calls[OF f] have w1: "calls w1 = calls w @ [get_records (cfg_domain d)]" .
  show ?thesis
  proof (cases res)
    case (Inl e)
    then show ?thesis using f w1 by (simp add: try_update_single_domain_def)
  next
    case (Inr existing)
    from update_or_create_dns_record_calls[of E w1 "cfg_domain d" "cfg_subdomain d" ip
        "cfg_record_type d" "cfg_ttl d"]
    obtain rest where "calls (snd (update_or_create_dns_record E w1 (cfg_domain d)
        (cfg_subdomain d) ip (cfg_record_type d) (cfg_ttl d)))
        = calls w1 @ get_records (cfg_domain d) # rest" by blast
    then show ?thesis
      using f Inr w1
      by (auto simp: try_update_single_domain_def Let_def split: prod.splits sum.splits)
  qed
qed

lemma update_single_domain_calls:
  assumes "update_single_domain E w d ip = (r, w')"
  shows "\<exists>rest. calls w' = calls w @ get_records (cfg_domain d) # rest"
proof -
  from try_update_single_domain_calls[of E w d ip] obtain rest where
    "calls (snd (try_update_single_domain E w d ip)) = calls w @ get_records (cfg_domain d) # rest"
    by blast
  then show ?thesis
    using assms
    by (auto simp: update_single_domain_def Let_def split: prod.splits sum.splits exn.splits)
qed

lemma update_single_domain_failed:
  assumes "try_update_single_domain E w t ip = (Inl e, w1)" and "clock E (net w1) = (ts, n)"
  shows "update_single_domain E w t ip =
     (\<lparr>res_domain = cfg_domain t, res_subdomain = cfg_subdomain t, res_success = False,
       res_old_ip = None, res_new_ip = None,
       res_error = Some (case e of VultrAPIError m \<Rightarrow> m
                         | OtherException m \<Rightarrow> ''Unexpected error: '' @ m),
       res_timestamp = ts\<rparr>, w1\<lparr>net := n\<rparr>)"
  using assms by (cases e) (simp_all add: update_single_domain_def)

lemma update_all_loop_append:
  "update_all_loop E u w ip acc (ds1 @ ds2) =
     (case update_all_loop E u w ip acc ds1 of
        (rs1, u1, w1) \<Rightarrow> update_all_loop E u1 w1 ip rs1 ds2)"
  by (induction ds1 arbitrary: u w acc) (simp_all split: prod.splits)

lemma update_all_loop_config:
  "update_all_loop E (u\<lparr>config_domains := c\<rparr>) w ip acc ds =
     (case update_all_loop E u w ip acc ds of
        (rs, u', w') \<Rightarrow> (rs, u'\<lparr>config_domains := c\<rparr>, w'))"
proof (induction ds arbitrary: u w acc)
  case Nil
  then show ?case by simp
next
  case (Cons d ds)
  obtain r w1 where s: "update_single_domain E w d ip = (r, w1)"
    by (cases "update_single_domain E w d ip")
  have eq: "u\<lparr>config_domains := c, update_history := update_history u @ [r]\<rparr>
      = (u\<lparr>update_history := update_history u @ [r]\<rparr>)\<lparr>config_domains := c\<rparr>"
    by (cases u) simp
  have step: "update_all_loop E (u\<lparr>config_domains := c\<rparr>) w ip acc (d # ds)
      = update_all_loop E (u\<lparr>config_domains := c, update_history := update_history u @ [r]\<rparr>)
          w1 ip (acc @ [r]) ds"
    using s by simp
  have step': "update_all_loop E u w ip acc (d # ds)
      = update_all_loop E (u\<lparr>update_history := update_history u @ [r]\<rparr>) w1 ip (acc @ [r]) ds"
    using s by simp
  show ?case
    unfolding step step' eq
    by (rule Cons.IH)
qed

lemma update_all_domains_snoc:
  assumes "update_all_domains E (u\<lparr>config_domains := ds\<rparr>) w ip = (rs, u1, w1)"
      and "update_single_domain E w1 t ip = (r, w2)"
  shows "update_all_domains E (u\<lparr>config_domains := ds @ [t]\<rparr>) w ip =
     (rs @ [r], u1\<lparr>config_domains := ds @ [t], update_history := update_history u1 @ [r]\<rparr>, w2)"
proof -
  have a: "update_all_loop E (u\<lparr>config_domains := ds\<rparr>) w ip [] ds = (rs, u1, w1)"
    using assms(1) by (simp add: update_all_domains_def)
  have "u\<lparr>config_domains := ds @ [t]\<rparr> = (u\<lparr>config_domains := ds\<rparr>)\<lparr>config_domains := ds @ [t]\<rparr>"
    by simp
  then have b: "update_all_loop E (u\<lparr>config_domains := ds @ [t]\<rparr>) w ip [] ds
      = (rs, u1\<lparr>config_domains := ds @ [t]\<rparr>, w1)"
    using update_all_loop_config[where E = E and u = "u\<lparr>config_domains := ds\<rparr>"
        and c = "ds @ [t]" and w = w and ip = ip and acc = "[]" and ds = ds] a
    by simp
  show ?thesis
    using b assms(2) by (simp add: update_all_domains_def update_all_loop_append)
qed

lemma update_all_loop_lookups:
  assumes "update_all_loop E u w ip acc ds = (results, u', w')"
  shows "\<exists>segs. calls w' = calls w @ concat segs \<and> length segs = length ds
           \<and> (\<forall>i<length ds. \<exists>rest. segs ! i = get_records (cfg_domain (ds ! i)) # rest)"
  using assms
proof (induction ds arbitrary: u w acc)
  case Nil
  then show ?case by simp
next
  case (Cons d ds)
  obtain r w1 where s: "update_single_domain E w d ip = (r, w1)"
    by (cases "update_single_domain E w d ip")
  from update_single_domain_calls[OF s] obtain rest where
    w1: "calls w1 = calls w @ get_records (cfg_domain d) # rest" by blast
  from Cons.prems s
  have "update_all_loop E (u\<lparr>update_history := update_history u @ [r]\<rparr>) w1 ip (acc @ [r]) ds
          = (results, u', w')" by simp
  from Cons.IH[OF this] obtain segs where segs: "calls w' = calls w1 @ concat segs"
    "length segs = length ds"
    "\<forall>i<length ds. \<exists>rest. segs ! i = get_records (cfg_domain (ds ! i)) # rest" by blast
  let ?segs = "(get_records (cfg_domain d) # rest) # segs"
  have "calls w' = calls w @ concat ?segs" using segs(1) w1 by simp
  moreover have "length ?segs = length (d # ds)" using segs(2) by simp
  moreover have "\<forall>i<length (d # ds). \<exists>rest. ?segs ! i = get_records (cfg_domain ((d # ds) ! i)) # rest"
    using segs(3) by (auto simp: nth_Cons split: nat.splits)
  ultimately show ?case by blast
qed


lemma fail_first_detects_change:
  "check_ip_change replay new_monitor w_fail_first =
     ((True, Some ''203.0.113.7''),
      \<lparr>current_ip = Some ''203.0.113.7'', last_check = Some 0, last_update = None\<rparr>,
      \<lparr>net = \<lparr>api_replies = [Raises (VultrAPIError ''VULTR API error: Rate limit exceeded''),
                               listing [home], listing [home], no_content],
                echo_replies = [], ticks = 1\<rparr>, calls = []\<rparr>)"
  by (simp add: check_ip_change_def new_monitor_def w_fail_first_def start_def replay_clock
      replay_ip_service get_public_ip_def IP_SERVICES_def strip_address address_is_valid Let_def)

lemma fail_first_blog_raises:
  "try_update_single_domain replay
     \<lparr>net = \<lparr>api_replies = [Raises (VultrAPIError ''VULTR API error: Rate limit exceeded''),
                              listing [home], listing [home], no_content],
               echo_replies = [], ticks = 1\<rparr>, calls = []\<rparr>
     blog_target ''203.0.113.7'' =
     (Inl (VultrAPIError ''VULTR API error: Rate limit exceeded''),
      \<lparr>net = \<lparr>api_replies = [listing [home], listing [home], no_content],
                echo_replies = [], ticks = 1\<rparr>, calls = [get_records ''example.com'']\<rparr>)"
  by (simp add: try_update_single_domain_def blog_target_def client_simps)

lemma fail_first_updates_home:
  "update_single_domain replay
     \<lparr>net = \<lparr>api_replies = [listing [home], listing [home], no_content],
               echo_replies = [], ticks = 2\<rparr>, calls = [get_records ''example.com'']\<rparr>
     home_target ''203.0.113.7'' =
     (\<lparr>res_domain = ''example.com'', res_subdomain = ''home'', res_success = True,
       res_old_ip = Some ''198.51.100.4'', res_new_ip = Some ''203.0.113.7'',
       res_error = None, res_timestamp = 2\<rparr>,
      \<lparr>net = \<lparr>api_replies = [], echo_replies = [], ticks = 3\<rparr>,
       calls = [get_records ''example.com'', get_records ''example.com'',
                get_records ''example.com'',
                patch_record ''example.com'' ''rec-1'' [(''data'', JStr ''203.0.113.7'')]]\<rparr>)"
  by (simp add: update_single_domain_def try_update_single_domain_def home_target_def
      client_simps replay_clock)

text \<open>
  C1. When the listing of the domain returns \<open>rs\<close>, \<open>find_dns_record\<close> returns the first
  record of \<open>rs\<close> whose type is the requested one and whose name is a candidate name:
  \<open>subdomain\<close>, \<open>subdomain.domain\<close> or \<open>subdomain.\<close> for a non-empty subdomain, the
  empty name, \<open>@\<close>, \<open>domain\<close> or \<open>domain.\<close> for the root; it returns \<open>None\<close> when no
  record of \<open>rs\<close> matches. For \<open>blog\<close> of \<open>example.com\<close> the record found is never
  named \<open>bloggy\<close>.
\<close>

theorem find_dns_record_first_match:
  assumes "list_dns_records E w domain = (Inr rs, w')"
  shows "\<exists>res. find_dns_record E w domain subdomain kind = (Inr res, w') \<and>
     (let cand = (if subdomain \<noteq> [] then {subdomain, subdomain @ ''.'' @ domain, subdomain @ ''.''}
                  else {[], ''@'', domain, domain @ ''.''});
          matches = (\<lambda>r. rec_type r = kind \<and> rec_name r \<in> cand)
      in (case res of
            None \<Rightarrow> \<forall>r\<in>set rs. \<not> matches r
          | Some r \<Rightarrow> \<exists>i<length rs. rs ! i = r \<and> matches r \<and> (\<forall>j<i. \<not> matches (rs ! j)))
         \<and> (domain = ''example.com'' \<and> subdomain = ''blog'' \<longrightarrow>
              (\<forall>r. res = Some r \<longrightarrow> rec_name r \<noteq> ''bloggy'')))"
proof -
  let ?res = "find_loop (target_names domain subdomain) kind rs"
  have run: "find_dns_record E w domain subdomain kind = (Inr ?res, w')"
    using assms by (simp add: find_dns_record_def)
  have first: "case ?res of
       None \<Rightarrow> \<forall>r\<in>set rs. \<not> (rec_type r = kind \<and> rec_name r \<in> set (target_names domain subdomain))
     | Some r \<Rightarrow> \<exists>i<length rs. rs ! i = r \<and>
         (rec_type r = kind \<and> rec_name r \<in> set (target_names domain subdomain)) \<and>
         (\<forall>j<i. \<not> (rec_type (rs ! j) = kind \<and> rec_name (rs ! j) \<in> set (target_names domain subdomain)))"
  proof (cases ?res)
    case None
    then show ?thesis using find_loop_None[of "target_names domain subdomain" kind rs] by simp
  next
    case (Some r)
    then show ?thesis using find_loop_Some[OF Some] by simp
  qed
  have bloggy: "domain = ''example.com'' \<and> subdomain = ''blog'' \<longrightarrow>
      (\<forall>r. ?res = Some r \<longrightarrow> rec_name r \<noteq> ''bloggy'')"
  proof (intro impI allI)
    fix r assume d: "domain = ''example.com'' \<and> subdomain = ''blog''" and s: "?res = Some r"
    from find_loop_Some[OF s] have "rec_name r \<in> set (target_names domain subdomain)" by blast
    with d show "rec_name r \<noteq> ''bloggy''" by (auto simp: target_names_def)
  qed
  show ?thesis
    using run first bloggy unfolding Let_def set_target_names by blast
qed

theorem find_dns_record_first_match_witness:
  "list_dns_records replay (start [listing ex_rs] []) ''example.com''
     = (Inr ex_rs, \<lparr>net = \<lparr>api_replies = [], echo_replies = [], ticks = 0\<rparr>,
                   calls = [get_records ''example.com'']\<rparr>)
   \<and> fst (find_dns_record replay (start [listing ex_rs] []) ''example.com'' ''blog'' ''A'')
       = Inr (Some (a_record ''3'' ''blog.'' ''198.51.100.3'' 300))"
proof -
  have h: "list_dns_records replay (start [listing ex_rs] []) ''example.com''
     = (Inr ex_rs, \<lparr>net = \<lparr>api_replies = [], echo_replies = [], ticks = 0\<rparr>,
                   calls = [get_records ''example.com'']\<rparr>)"
    by (simp add: list_dns_records_def request_def replay_def start_def listing_def get_records_def)
  show ?thesis
    using h find_dns_record_first_match[OF h, of "''blog''" "''A''"]
    by (simp add: find_dns_record_def target_names_def ex_rs_def a_record_def)
qed

section \<open>The TTL fallback\<close>

text \<open>Whatever the provider does, the handler starts by sending the creation at the TTL it is given.\<close>

lemma create_fallback_first_call:
  "\<exists>rest. calls (snd (create_fallback E w domain name kind ip ttl))
     = calls w @ [post_record domain name kind ip ttl] @ rest"
proof -
  obtain res w1 where c: "create_dns_record E w domain name kind ip ttl None = (res, w1)"
    by (cases "create_dns_record E w domain name kind ip ttl None")
  from create_dns_record_calls[OF c]
  have w1: "calls w1 = calls w @ [post_record domain name kind ip ttl]" .
  from retry_common_ttls_calls[of E w1 domain name kind ip ttl common_ttls] obtain rest where
    r: "calls (snd (retry_common_ttls E w1 domain name kind ip ttl common_ttls)) = calls w1 @ rest"
    by blast
  show ?thesis
    using c w1 r
    by (cases res; auto simp: create_fallback_def split: exn.splits prod.splits option.splits)
qed

text \<open>
  So a creation that raised \<open>VultrAPIError\<close> inside the \<^verbatim>\<open>try\<close> is sent again at the same
  TTL, for any provider and any message of the error.
\<close>

lemma failed_create_is_sent_again:
  assumes "find_dns_record E w domain subdomain kind = (Inr None, w1)"
      and "list_dns_records E w1 domain = (Inr all_records, w2)"
      and "used_ttl = (case all_records of [] \<Rightarrow> ttl | first # others \<Rightarrow> rec_ttl first)"
      and "name = (if subdomain \<noteq> [] then subdomain else ''@'')"
      and "create_dns_record E w2 domain name kind ip used_ttl None = (Inl (VultrAPIError e), w3)"
  shows "\<exists>rest. calls (snd (update_or_create_dns_record E w domain subdomain ip kind ttl))
           = calls w @ [get_records domain, get_records domain,
                        post_record domain name kind ip used_ttl,
                        post_record domain name kind ip used_ttl] @ rest"
proof -
  have ttl1: "(case all_records of [] \<Rightarrow> ttl
       | first # others \<Rightarrow> (if ttl \<noteq> rec_ttl first then rec_ttl first else ttl)) = used_ttl"
    by (simp add: assms(3) split: list.splits)
  have w3: "calls w3 = calls w @ [get_records domain, get_records domain,
                        post_record domain name kind ip used_ttl]"
    using find_dns_record_calls[OF assms(1)] list_dns_records_calls[OF assms(2)]
      create_dns_record_calls[OF assms(5)] by simp
  have run: "update_or_create_dns_record E w domain subdomain ip kind ttl
           = create_fallback E w3 domain name kind ip used_ttl"
    using assms(1,2,5) ttl1
    by (simp add: update_or_create_dns_record_def create_new_record_def Let_def
        flip: assms(4))
  from create_fallback_first_call[of E w3 domain name kind ip used_ttl] obtain rest where
    "calls (snd (create_fallback E w3 domain name kind ip used_ttl))
       = calls w3 @ [post_record domain name kind ip used_ttl] @ rest" by blast
  then show ?thesis using run w3 by simp
qed

text \<open>
  The handler was written for a failed listing. There its creation is the first one, and
  the failed TTL 300 is not sent again: the fallback list goes on at 3600.
\<close>

lemma ttl_fallback_after_failed_listing:
  "update_or_create_dns_record replay w_unlisted ''example.com'' ''blog'' ''203.0.113.7'' ''A'' 300
     = (Inr (), \<lparr>net = \<lparr>api_replies = [], echo_replies = [], ticks = 0\<rparr>,
                 calls = [get_records ''example.com'', get_records ''example.com'',
                          post_record ''example.com'' ''blog'' ''A'' ''203.0.113.7'' 300,
                          post_record ''example.com'' ''blog'' ''A'' ''203.0.113.7'' 3600]\<rparr>)"
  by (simp add: client_simps w_unlisted_def start_def)

text \<open>
  C2, at a provider that has no record for the domain, refuses a creation at TTL 300 with
  a TTL error and accepts one at TTL 3600. The target is configured with TTL 300. The
  reconciliation succeeds, and the requests it sends are the two listings and then three
  creations, at TTL 300, at TTL 300 again, and at TTL 3600: the creation that failed
  inside the \<^verbatim>\<open>try\<close> is sent a second time by the handler before the fallback list is
  tried.
\<close>

theorem ttl_fallback_repeats_failed_ttl:
  "update_or_create_dns_record no_ttl_300 \<lparr>net = (), calls = []\<rparr>
       ''example.com'' ''blog'' ''203.0.113.7'' ''A'' 300
     = (Inr (), \<lparr>net = (),
                 calls = [get_records ''example.com'', get_records ''example.com'',
                          post_record ''example.com'' ''blog'' ''A'' ''203.0.113.7'' 300,
                          post_record ''example.com'' ''blog'' ''A'' ''203.0.113.7'' 300,
                          post_record ''example.com'' ''blog'' ''A'' ''203.0.113.7'' 3600]\<rparr>)"
  by (simp add: no_ttl_300_def ttl_of_def request_def list_dns_records_def
      find_dns_record_def create_dns_record_def update_or_create_dns_record_def
      create_new_record_def create_fallback_def common_ttls_def target_names_def
      listing_def created_def get_records_def post_record_def Let_def)

text \<open>
  C3 as stated fails where it says that failure is reported: with every echo service
  down the resolver returns no address and \<open>check_and_update\<close> returns \<open>True\<close>.
\<close>

theorem no_address_reports_success_counterexample:
  "fst (get_public_ip replay (snd (clock replay (net w_down)))) = None
   \<and> fst (check_and_update replay (new_updater [home_target]) w_down) \<noteq> False"
proof -
  have c: "clock replay (net w_down)
             = (0, \<lparr>api_replies = [], echo_replies = [], ticks = 1\<rparr>)"
    by (simp add: w_down_def start_def replay_clock)
  have g: "get_public_ip replay \<lparr>api_replies = [], echo_replies = [], ticks = 1\<rparr>
             = (None, \<lparr>api_replies = [], echo_replies = [], ticks = 1\<rparr>)"
    by (simp add: get_public_ip_def IP_SERVICES_def replay_ip_service)
  from check_and_update_idle[OF check_ip_change_None[OF c g]] c g
  show ?thesis by simp
qed

text \<open>
  C3, as the code has it. When the resolver returns no address, \<open>check_and_update\<close>
  returns \<open>True\<close> (the failure is logged by the monitor and goes no further), sends
  nothing to the provider, and leaves the stored address, the last update time and the
  history as they were; only the time of the last check is set.
\<close>

theorem no_address_is_a_quiet_cycle:
  assumes "clock E (net w) = (t, n1)" and "get_public_ip E n1 = (None, n2)"
  shows "check_and_update E u w =
           (True, u\<lparr>ip_monitor := (ip_monitor u)\<lparr>last_check := Some t\<rparr>\<rparr>, w\<lparr>net := n2\<rparr>)
       \<and> calls (snd (snd (check_and_update E u w))) = calls w
       \<and> current_ip (ip_monitor (fst (snd (check_and_update E u w)))) = current_ip (ip_monitor u)"
proof -
  from check_and_update_idle[OF check_ip_change_None[OF assms]]
  have "check_and_update E u w =
           (True, u\<lparr>ip_monitor := (ip_monitor u)\<lparr>last_check := Some t\<rparr>\<rparr>, w\<lparr>net := n2\<rparr>)" .
  then show ?thesis by simp
qed

theorem no_address_is_a_quiet_cycle_witness:
  "check_and_update replay (new_updater [home_target]) w_garbage =
     (True,
      \<lparr>config_domains = [home_target],
       ip_monitor = \<lparr>current_ip = None, last_check = Some 0, last_update = None\<rparr>,
       update_history = []\<rparr>,
      \<lparr>net = \<lparr>api_replies = [], echo_replies = [], ticks = 1\<rparr>, calls = []\<rparr>)"
proof -
  have c: "clock replay (net w_garbage)
             = (0, \<lparr>api_replies = [], echo_replies = [Some ''<html>busy</html>'', None,
                     Some ''999.1.1.1''], ticks = 1\<rparr>)"
    by (simp add: w_garbage_def start_def replay_clock)
  have g: "get_public_ip replay \<lparr>api_replies = [], echo_replies = [Some ''<html>busy</html>'',
               None, Some ''999.1.1.1''], ticks = 1\<rparr>
             = (None, \<lparr>api_replies = [], echo_replies = [], ticks = 1\<rparr>)"
    by (simp add: resolver_simps)
  show ?thesis
    using no_address_is_a_quiet_cycle[OF c g, of "new_updater [home_target]"]
    by (simp add: new_updater_def new_monitor_def w_garbage_def start_def)
qed

text \<open>
  C4. In a cycle that performs updates (a change was detected and the address is
  non-empty), with \<open>results\<close> the outcomes that \<open>update_all_domains\<close> returns, one per
  configured target: \<open>check_and_update\<close> returns \<open>True\<close> exactly when every outcome
  succeeded, and \<open>last_update\<close> is set to a new reading of the clock exactly then; it keeps
  its value otherwise.
\<close>

theorem check_and_update_all_or_nothing:
  assumes "check_ip_change E (ip_monitor u) w = ((True, Some ip), m1, w1)" and "ip \<noteq> []"
      and "update_all_domains E (u\<lparr>ip_monitor := m1\<rparr>) w1 ip = (results, u2, w2)"
  shows "length results = length (config_domains u)
       \<and> fst (check_and_update E u w) = (\<forall>r\<in>set results. res_success r)
       \<and> last_update (ip_monitor (fst (snd (check_and_update E u w)))) =
           (if \<forall>r\<in>set results. res_success r then Some (fst (clock E (net w2)))
            else last_update (ip_monitor u))"
proof -
  from update_all_domains_results[OF assms(3)]
  have n: "length results = length (config_domains u)" and m: "ip_monitor u2 = m1" by simp_all
  from check_ip_change_frame[OF assms(1)] have l: "last_update m1 = last_update (ip_monitor u)"
    by simp
  show ?thesis
    using check_and_update_updates[OF assms] n m l by simp
qed

theorem check_and_update_all_or_nothing_witness:
  "fst (check_and_update replay (new_updater [home_target]) w_cycle) = True
   \<and> last_update (ip_monitor (fst (snd (check_and_update replay (new_updater [home_target])
        w_cycle)))) = Some 2
   \<and> fst (check_and_update replay (new_updater [blog_target]) w_retry) = False
   \<and> last_update (ip_monitor (fst (snd (check_and_update replay (new_updater [blog_target])
        w_retry)))) = None"
proof -
  have m: "ip_monitor (new_updater ds) = new_monitor" for ds
    by (simp add: new_updater_def)
  have ip: "''203.0.113.7'' \<noteq> []" by simp
  have all: "update_all_domains replay
       (new_updater [home_target]\<lparr>ip_monitor :=
          \<lparr>current_ip = Some ''203.0.113.7'', last_check = Some 0, last_update = None\<rparr>\<rparr>)
       \<lparr>net = \<lparr>api_replies = [listing [home], listing [home], no_content],
                 echo_replies = [], ticks = 1\<rparr>, calls = []\<rparr> ''203.0.113.7'' =
     ([\<lparr>res_domain = ''example.com'', res_subdomain = ''home'', res_success = True,
        res_old_ip = Some ''198.51.100.4'', res_new_ip = Some ''203.0.113.7'',
        res_error = None, res_timestamp = 1\<rparr>],
      \<lparr>config_domains = [home_target],
       ip_monitor = \<lparr>current_ip = Some ''203.0.113.7'', last_check = Some 0, last_update = None\<rparr>,
       update_history = [\<lparr>res_domain = ''example.com'', res_subdomain = ''home'',
        res_success = True, res_old_ip = Some ''198.51.100.4'',
        res_new_ip = Some ''203.0.113.7'', res_error = None, res_timestamp = 1\<rparr>]\<rparr>,
      \<lparr>net = \<lparr>api_replies = [], echo_replies = [], ticks = 2\<rparr>,
       calls = [get_records ''example.com'', get_records ''example.com'',
                patch_record ''example.com'' ''rec-1'' [(''data'', JStr ''203.0.113.7'')]]\<rparr>)"
    by (simp add: update_all_domains_def new_updater_def cycle_updates_home)
  have none: "update_all_domains replay
       (new_updater [blog_target]\<lparr>ip_monitor :=
          \<lparr>current_ip = Some ''203.0.113.7'', last_check = Some 0, last_update = None\<rparr>\<rparr>)
       \<lparr>net = \<lparr>api_replies = [], echo_replies = [Some ''203.0.113.7''], ticks = 1\<rparr>,
        calls = []\<rparr> ''203.0.113.7'' =
     ([\<lparr>res_domain = ''example.com'', res_subdomain = ''blog'', res_success = False,
        res_old_ip = None, res_new_ip = None,
        res_error = Some ''Request failed: connection refused'', res_timestamp = 1\<rparr>],
      \<lparr>config_domains = [blog_target],
       ip_monitor = \<lparr>current_ip = Some ''203.0.113.7'', last_check = Some 0, last_update = None\<rparr>,
       update_history = [\<lparr>res_domain = ''example.com'', res_subdomain = ''blog'',
        res_success = False, res_old_ip = None, res_new_ip = None,
        res_error = Some ''Request failed: connection refused'', res_timestamp = 1\<rparr>]\<rparr>,
      \<lparr>net = \<lparr>api_replies = [], echo_replies = [Some ''203.0.113.7''], ticks = 2\<rparr>,
       calls = [get_records ''example.com'']\<rparr>)"
    by (simp add: update_all_domains_def new_updater_def retry_updates_blog)
  show ?thesis
    using check_and_update_all_or_nothing[OF cycle_detects_change[folded m[of "[home_target]"]]
            ip all]
          check_and_update_all_or_nothing[OF retry_detects_change[folded m[of "[blog_target]"]]
            ip none]
    by (simp add: replay_clock new_updater_def new_monitor_def)
qed

text \<open>
  C5. When the lookup finds a record whose value is already the desired address,
  \<open>update_or_create_dns_record\<close> sends nothing but the lookup. Hence two reconciliations
  in a row with the same address, the first finding another value and the second lookup
  returning the new one, send exactly one \<open>PATCH\<close> and no \<open>POST\<close>.
\<close>

theorem reconcile_idempotent:
  "(find_dns_record E w domain subdomain kind = (Inr (Some r), w1) \<and> rec_data r = ip
      \<longrightarrow> update_or_create_dns_record E w domain subdomain ip kind ttl = (Inr (), w1)
          \<and> calls w1 = calls w @ [get_records domain])
   \<and> (find_dns_record E w domain subdomain kind = (Inr (Some r), w1) \<and> rec_data r \<noteq> ip
        \<and> update_or_create_dns_record E w domain subdomain ip kind ttl = (res, w2)
        \<and> find_dns_record E w2 domain subdomain kind = (Inr (Some r'), w3) \<and> rec_data r' = ip
      \<longrightarrow> update_or_create_dns_record E w2 domain subdomain ip kind ttl = (Inr (), w3)
          \<and> calls w3 = calls w @ [get_records domain,
                 patch_record domain (rec_id r) [(''data'', JStr ip)], get_records domain]
          \<and> count_method ''PATCH'' (calls w3) = Suc (count_method ''PATCH'' (calls w))
          \<and> count_method ''POST'' (calls w3) = count_method ''POST'' (calls w))"
proof (intro conjI impI)
  assume a: "find_dns_record E w domain subdomain kind = (Inr (Some r), w1) \<and> rec_data r = ip"
  then show "update_or_create_dns_record E w domain subdomain ip kind ttl = (Inr (), w1)"
    by (simp add: update_or_create_dns_record_def)
  from a show "calls w1 = calls w @ [get_records domain]"
    using find_dns_record_calls by blast
next
  assume b: "find_dns_record E w domain subdomain kind = (Inr (Some r), w1) \<and> rec_data r \<noteq> ip
        \<and> update_or_create_dns_record E w domain subdomain ip kind ttl = (res, w2)
        \<and> find_dns_record E w2 domain subdomain kind = (Inr (Some r'), w3) \<and> rec_data r' = ip"
  then have f1: "find_dns_record E w domain subdomain kind = (Inr (Some r), w1)"
    and ne: "rec_data r \<noteq> ip"
    and run1: "update_or_create_dns_record E w domain subdomain ip kind ttl = (res, w2)"
    and f2: "find_dns_record E w2 domain subdomain kind = (Inr (Some r'), w3)"
    and eq: "rec_data r' = ip" by blast+
  have u: "update_dns_record E w1 domain (rec_id r) (Some ip) None None None = (res, w2)"
    using f1 ne run1 by (simp add: update_or_create_dns_record_def)
  have w2: "calls w2 = calls w @ [get_records domain,
       patch_record domain (rec_id r) [(''data'', JStr ip)]]"
    using update_dns_record_data_calls[OF u] find_dns_record_calls[OF f1]
    by (simp add: patch_record_def)
  show "update_or_create_dns_record E w2 domain subdomain ip kind ttl = (Inr (), w3)"
    using f2 eq by (simp add: update_or_create_dns_record_def)
  show w3: "calls w3 = calls w @ [get_records domain,
       patch_record domain (rec_id r) [(''data'', JStr ip)], get_records domain]"
    using find_dns_record_calls[OF f2] w2 by simp
  show "count_method ''PATCH'' (calls w3) = Suc (count_method ''PATCH'' (calls w))"
    unfolding w3 count_method_append
    by (simp add: count_method_def get_records_def patch_record_def)
  show "count_method ''POST'' (calls w3) = count_method ''POST'' (calls w)"
    unfolding w3 count_method_append
    by (simp add: count_method_def get_records_def patch_record_def)
qed

theorem reconcile_idempotent_witness:
  "update_or_create_dns_record replay w_same ''example.com'' ''home'' ''203.0.113.7'' ''A'' 300
     = (Inr (), \<lparr>net = \<lparr>api_replies = [], echo_replies = [], ticks = 0\<rparr>,
                 calls = [get_records ''example.com'']\<rparr>)
   \<and> (let once = snd (update_or_create_dns_record replay w_patch ''example.com'' ''home''
                        ''203.0.113.7'' ''A'' 300);
            twice = update_or_create_dns_record replay once ''example.com'' ''home''
                        ''203.0.113.7'' ''A'' 300
        in fst twice = Inr () \<and> count_method ''PATCH'' (calls (snd twice)) = 1
           \<and> count_method ''POST'' (calls (snd twice)) = 0)"
proof -
  let ?new = "home\<lparr>rec_data := ''203.0.113.7''\<rparr>"
  let ?s1 = "\<lparr>net = \<lparr>api_replies = [], echo_replies = [], ticks = 0\<rparr>,
              calls = [get_records ''example.com'']\<rparr>"
  have fs: "find_dns_record replay w_same ''example.com'' ''home'' ''A'' = (Inr (Some ?new), ?s1)
            \<and> rec_data ?new = ''203.0.113.7''"
    by (simp add: replay_simps w_same_def home_def)
  have same: "update_or_create_dns_record replay w_same ''example.com'' ''home''
       ''203.0.113.7'' ''A'' 300 = (Inr (), ?s1)"
    using reconcile_idempotent[of replay w_same "''example.com''" "''home''" "''A''" ?new ?s1
        "''203.0.113.7''" 300] fs
    by blast
  let ?w1 = "\<lparr>net = \<lparr>api_replies = [no_content, listing [?new]], echo_replies = [], ticks = 0\<rparr>,
              calls = [get_records ''example.com'']\<rparr>"
  let ?w2 = "\<lparr>net = \<lparr>api_replies = [listing [?new]], echo_replies = [], ticks = 0\<rparr>,
              calls = [get_records ''example.com'',
                       patch_record ''example.com'' ''rec-1'' [(''data'', JStr ''203.0.113.7'')]]\<rparr>"
  let ?w3 = "\<lparr>net = \<lparr>api_replies = [], echo_replies = [], ticks = 0\<rparr>,
              calls = [get_records ''example.com'',
                       patch_record ''example.com'' ''rec-1'' [(''data'', JStr ''203.0.113.7'')],
                       get_records ''example.com'']\<rparr>"
  have hyp: "find_dns_record replay w_patch ''example.com'' ''home'' ''A'' = (Inr (Some home), ?w1)
      \<and> rec_data home \<noteq> ''203.0.113.7''
      \<and> update_or_create_dns_record replay w_patch ''example.com'' ''home'' ''203.0.113.7'' ''A'' 300
          = (Inr (), ?w2)
      \<and> find_dns_record replay ?w2 ''example.com'' ''home'' ''A'' = (Inr (Some ?new), ?w3)
      \<and> rec_data ?new = ''203.0.113.7''"
    by (simp add: replay_simps w_patch_def home_def)
  have twice: "update_or_create_dns_record replay ?w2 ''example.com'' ''home'' ''203.0.113.7'' ''A'' 300
        = (Inr (), ?w3)
      \<and> count_method ''PATCH'' (calls ?w3) = Suc (count_method ''PATCH'' (calls w_patch))
      \<and> count_method ''POST'' (calls ?w3) = count_method ''POST'' (calls w_patch)"
    using reconcile_idempotent[of replay w_patch "''example.com''" "''home''" "''A''" home ?w1
        "''203.0.113.7''" 300 "Inr ()" ?w2 ?new ?w3] hyp
    by blast
  have zero: "count_method ''PATCH'' (calls w_patch) = 0 \<and> count_method ''POST'' (calls w_patch) = 0"
    by (simp add: w_patch_def start_def count_method_def)
  show ?thesis
    using same hyp twice zero by (simp add: Let_def)
qed

text \<open>
  In the other direction the IPv4 branch accepts what \<^verbatim>\<open>int\<close> accepts, a sign or an
  underscore between digits included, and it does reject an octet above 255.
\<close>

lemma validate_ip_int_syntax:
  "validate_ip E ''+1.2.3.4'' \<and> validate_ip E ''1_0.0.0.1'' \<and> \<not> validate_ip E ''256.0.0.1''"
  by (simp add: validate_ip_def py_int_def int_strip_def int_isspace_def max_str_digits_def strip_def py_isspace_def is_digit_def digit_val_def)

text \<open>
  C6, at the IPv6 address \<open>::ffff:1.2.3.4\<close> (an IPv4-mapped address in the mixed
  notation of RFC 4291). It has three dots, so \<^verbatim>\<open>split('.')\<close> gives four parts and the
  IPv4 branch is taken; \<^verbatim>\<open>int('::ffff:1')\<close> raises \<^verbatim>\<open>ValueError\<close> and the validator
  returns \<open>False\<close> without asking \<^verbatim>\<open>inet_pton\<close>, whatever \<^verbatim>\<open>inet_pton\<close> would answer.
\<close>

theorem validate_ip_rejects_mapped_ipv6:
  "split_on CHR ''.'' ''::ffff:1.2.3.4'' = [''::ffff:1'', ''2'', ''3'', ''4'']
   \<and> py_int ''::ffff:1'' = None
   \<and> validate_ip E ''::ffff:1.2.3.4'' = False"
  by (simp add: validate_ip_def py_int_def int_strip_def int_isspace_def max_str_digits_def strip_def py_isspace_def is_digit_def)

text \<open>
  C7. When the lookup finds a record whose value differs from the desired address, what
  \<open>update_or_create_dns_record\<close> sends after the lookup is one \<open>PATCH\<close> of that record
  whose payload has the single key \<open>data\<close>: no \<open>ttl\<close>, \<open>name\<close>, \<open>type\<close> or \<open>priority\<close>
  is sent, whatever the configured TTL.
\<close>

theorem update_patches_value_only:
  assumes "find_dns_record E w domain subdomain record_type = (Inr (Some r), w1)"
      and "rec_data r \<noteq> ip_address"
  shows "\<exists>res w2. update_or_create_dns_record E w domain subdomain ip_address record_type ttl
            = (res, w2) \<and>
          calls w2 = calls w @ [get_records domain,
            \<lparr>req_method = ''PATCH'',
             req_endpoint = ''/domains/'' @ domain @ ''/records/'' @ rec_id r,
             req_json = Some [(''data'', JStr ip_address)]\<rparr>]"
proof -
  obtain res w2 where
    u: "update_dns_record E w1 domain (rec_id r) (Some ip_address) None None None = (res, w2)"
    by (cases "update_dns_record E w1 domain (rec_id r) (Some ip_address) None None None")
  have "update_or_create_dns_record E w domain subdomain ip_address record_type ttl = (res, w2)"
    using assms u by (simp add: update_or_create_dns_record_def)
  moreover have "calls w2 = calls w @ [get_records domain,
            \<lparr>req_method = ''PATCH'',
             req_endpoint = ''/domains/'' @ domain @ ''/records/'' @ rec_id r,
             req_json = Some [(''data'', JStr ip_address)]\<rparr>]"
    using update_dns_record_data_calls[OF u] find_dns_record_calls[OF assms(1)] by simp
  ultimately show ?thesis by blast
qed

theorem update_patches_value_only_witness:
  "fst (find_dns_record replay w_patch ''example.com'' ''home'' ''A'') = Inr (Some home)
   \<and> rec_data home \<noteq> ''203.0.113.7''
   \<and> calls (snd (update_or_create_dns_record replay w_patch ''example.com'' ''home''
                    ''203.0.113.7'' ''A'' 300))
       = [get_records ''example.com'',
          patch_record ''example.com'' ''rec-1'' [(''data'', JStr ''203.0.113.7'')]]"
proof -
  obtain w1 where f: "find_dns_record replay w_patch ''example.com'' ''home'' ''A''
     = (Inr (Some home), w1)"
    by (simp add: replay_simps w_patch_def home_def)
  have d: "rec_data home \<noteq> ''203.0.113.7''"
    by (simp add: home_def a_record_def)
  show ?thesis
    using f d update_patches_value_only[OF f d, of 300]
    by (auto simp: patch_record_def home_def a_record_def w_patch_def start_def)
qed

text \<open>
  C8. When the lookup finds no record and the listing that follows returns \<open>all_records\<close>,
  the request sent next is the creation of the record with the TTL of the first listed
  record, or with the configured TTL when the listing is empty; when that creation
  succeeds it is the last request and the reconciliation succeeds.
\<close>

theorem new_record_ttl_discovery:
  assumes "find_dns_record E w domain subdomain record_type = (Inr None, w1)"
      and "list_dns_records E w1 domain = (Inr all_records, w2)"
  shows "let name = (if subdomain \<noteq> [] then subdomain else ''@'');
             used_ttl = (case all_records of [] \<Rightarrow> ttl | first # others \<Rightarrow> rec_ttl first);
             run = update_or_create_dns_record E w domain subdomain ip_address record_type ttl
         in (\<exists>rest. calls (snd run) = calls w @ [get_records domain, get_records domain,
                        post_record domain name record_type ip_address used_ttl] @ rest)
            \<and> (\<forall>r w3. create_dns_record E w2 domain name record_type ip_address used_ttl None
                         = (Inr r, w3) \<longrightarrow>
                  run = (Inr (), w3) \<and>
                  calls w3 = calls w @ [get_records domain, get_records domain,
                        post_record domain name record_type ip_address used_ttl])"
proof -
  define name where "name = (if subdomain \<noteq> [] then subdomain else ''@'')"
  define used_ttl where
    "used_ttl = (case all_records of [] \<Rightarrow> ttl | first # others \<Rightarrow> rec_ttl first)"
  have ttl1: "(case all_records of [] \<Rightarrow> ttl
       | first # others \<Rightarrow> (if ttl \<noteq> rec_ttl first then rec_ttl first else ttl)) = used_ttl"
    by (simp add: used_ttl_def split: list.splits)
  obtain cres w3 where
    c: "create_dns_record E w2 domain name record_type ip_address used_ttl None = (cres, w3)"
    by (cases "create_dns_record E w2 domain name record_type ip_address used_ttl None")
  have w2: "calls w2 = calls w @ [get_records domain, get_records domain]"
    using find_dns_record_calls[OF assms(1)] list_dns_records_calls[OF assms(2)] by simp
  have w3: "calls w3 = calls w @ [get_records domain, get_records domain,
                        post_record domain name record_type ip_address used_ttl]"
    using create_dns_record_calls[OF c] w2 by simp
  have run: "update_or_create_dns_record E w domain subdomain ip_address record_type ttl =
     (case cres of
        Inr r \<Rightarrow> (Inr (), w3)
      | Inl (OtherException m) \<Rightarrow> (Inl (OtherException m), w3)
      | Inl (VultrAPIError e) \<Rightarrow> create_fallback E w3 domain name record_type ip_address used_ttl)"
    using assms c ttl1
    by (simp add: update_or_create_dns_record_def create_new_record_def Let_def flip: name_def)
  have prefix: "\<exists>rest. calls (snd (update_or_create_dns_record E w domain subdomain ip_address
        record_type ttl)) = calls w3 @ rest"
  proof (cases cres)
    case (Inr r)
    then show ?thesis using run by simp
  next
    case (Inl e)
    then show ?thesis
      using run create_fallback_calls[of E w3 domain name record_type ip_address used_ttl]
      by (cases e) simp_all
  qed
  have ok: "\<forall>r w3'. create_dns_record E w2 domain name record_type ip_address used_ttl None
                 = (Inr r, w3') \<longrightarrow>
     update_or_create_dns_record E w domain subdomain ip_address record_type ttl = (Inr (), w3')
     \<and> calls w3' = calls w @ [get_records domain, get_records domain,
                        post_record domain name record_type ip_address used_ttl]"
    using run c w3 by auto
  show ?thesis
    using prefix ok w3 unfolding Let_def name_def[symmetric] used_ttl_def[symmetric]
    by simp
qed

theorem new_record_ttl_discovery_witness:
  "update_or_create_dns_record replay w_new ''example.com'' ''blog'' ''203.0.113.7'' ''A'' 300
     = (Inr (), \<lparr>net = \<lparr>api_replies = [], echo_replies = [], ticks = 0\<rparr>,
                 calls = [get_records ''example.com'', get_records ''example.com'',
                          post_record ''example.com'' ''blog'' ''A'' ''203.0.113.7'' 3600]\<rparr>)
   \<and> update_or_create_dns_record replay w_empty ''example.com'' '''' ''203.0.113.7'' ''A'' 300
     = (Inr (), \<lparr>net = \<lparr>api_replies = [], echo_replies = [], ticks = 0\<rparr>,
                 calls = [get_records ''example.com'', get_records ''example.com'',
                          post_record ''example.com'' ''@'' ''A'' ''203.0.113.7'' 300]\<rparr>)"
proof -
  let ?new = "created (a_record ''rec-2'' ''blog'' ''203.0.113.7'' 3600)"
  let ?w1 = "\<lparr>net = \<lparr>api_replies = [listing [home], ?new], echo_replies = [], ticks = 0\<rparr>,
              calls = [get_records ''example.com'']\<rparr>"
  let ?w2 = "\<lparr>net = \<lparr>api_replies = [?new], echo_replies = [], ticks = 0\<rparr>,
              calls = [get_records ''example.com'', get_records ''example.com'']\<rparr>"
  let ?w3 = "\<lparr>net = \<lparr>api_replies = [], echo_replies = [], ticks = 0\<rparr>,
              calls = [get_records ''example.com'', get_records ''example.com'',
                       post_record ''example.com'' ''blog'' ''A'' ''203.0.113.7'' 3600]\<rparr>"
  have f: "find_dns_record replay w_new ''example.com'' ''blog'' ''A'' = (Inr None, ?w1)"
    by (simp add: replay_simps w_new_def home_def)
  have l: "list_dns_records replay ?w1 ''example.com'' = (Inr [home], ?w2)"
    by (simp add: replay_simps)
  have c: "create_dns_record replay ?w2 ''example.com'' ''blog'' ''A'' ''203.0.113.7'' 3600 None
       = (Inr (a_record ''rec-2'' ''blog'' ''203.0.113.7'' 3600), ?w3)"
    by (simp add: replay_simps)
  have first: "update_or_create_dns_record replay w_new ''example.com'' ''blog''
       ''203.0.113.7'' ''A'' 300 = (Inr (), ?w3)"
    using new_record_ttl_discovery[OF f l, where ip_address = "''203.0.113.7''" and ttl = 300] c
    by (simp add: Let_def home_def a_record_def)
  let ?root = "created (a_record ''rec-1'' '''' ''203.0.113.7'' 300)"
  let ?v1 = "\<lparr>net = \<lparr>api_replies = [listing [], ?root], echo_replies = [], ticks = 0\<rparr>,
              calls = [get_records ''example.com'']\<rparr>"
  let ?v2 = "\<lparr>net = \<lparr>api_replies = [?root], echo_replies = [], ticks = 0\<rparr>,
              calls = [get_records ''example.com'', get_records ''example.com'']\<rparr>"
  let ?v3 = "\<lparr>net = \<lparr>api_replies = [], echo_replies = [], ticks = 0\<rparr>,
              calls = [get_records ''example.com'', get_records ''example.com'',
                       post_record ''example.com'' ''@'' ''A'' ''203.0.113.7'' 300]\<rparr>"
  have f': "find_dns_record replay w_empty ''example.com'' '''' ''A'' = (Inr None, ?v1)"
    by (simp add: replay_simps w_empty_def)
  have l': "list_dns_records replay ?v1 ''example.com'' = (Inr [], ?v2)"
    by (simp add: replay_simps)
  have c': "create_dns_record replay ?v2 ''example.com'' ''@'' ''A'' ''203.0.113.7'' 300 None
       = (Inr (a_record ''rec-1'' '''' ''203.0.113.7'' 300), ?v3)"
    by (simp add: replay_simps)
  have second: "update_or_create_dns_record replay w_empty ''example.com'' ''''
       ''203.0.113.7'' ''A'' 300 = (Inr (), ?v3)"
    using new_record_ttl_discovery[OF f' l', where ip_address = "''203.0.113.7''" and ttl = 300] c'
    by (simp add: Let_def)
  show ?thesis using first second by simp
qed

text \<open>
  C9. An exception raised while one target is reconciled becomes the failed outcome of that
  target and goes no further: \<open>update_all_domains\<close> returns one outcome per configured
  target, in the order of the configuration, appends them to the history, and sends at
  least the lookup of every target, whatever the outcomes. A target that comes after any
  list of targets is reconciled by \<open>update_single_domain\<close> in the world those targets left,
  failed or not. With two targets, the first updated with success and the second raising
  \<open>VultrAPIError\<close>, \<open>check_and_update\<close> returns \<open>False\<close> and the history ends with the
  successful outcome of the first target followed by the failed outcome of the second; with
  the first raising, the second is reconciled all the same and its own outcome follows the
  failed one.
\<close>

theorem provider_error_does_not_abort:
  "(update_all_domains E u w ip = (results, u', w') \<longrightarrow>
      length results = length (config_domains u)
      \<and> map res_domain results = map cfg_domain (config_domains u)
      \<and> map res_subdomain results = map cfg_subdomain (config_domains u)
      \<and> update_history u' = update_history u @ results
      \<and> (\<exists>segs. calls w' = calls w @ concat segs \<and> length segs = length (config_domains u)
            \<and> (\<forall>i<length (config_domains u).
                  \<exists>rest. segs ! i = get_records (cfg_domain (config_domains u ! i)) # rest)))
   \<and> update_all_domains E (u\<lparr>config_domains := []\<rparr>) w ip = ([], u\<lparr>config_domains := []\<rparr>, w)
   \<and> (update_all_domains E (u\<lparr>config_domains := ds\<rparr>) w ip = (rs, ua, wa)
        \<and> update_single_domain E wa t ip = (r, wb) \<longrightarrow>
      update_all_domains E (u\<lparr>config_domains := ds @ [t]\<rparr>) w ip =
        (rs @ [r], ua\<lparr>config_domains := ds @ [t], update_history := update_history ua @ [r]\<rparr>,
         wb))
   \<and> (try_update_single_domain E wc t ip = (Inl e, wd) \<and> clock E (net wd) = (ts, n) \<longrightarrow>
      update_single_domain E wc t ip =
        (\<lparr>res_domain = cfg_domain t, res_subdomain = cfg_subdomain t, res_success = False,
          res_old_ip = None, res_new_ip = None,
          res_error = Some (case e of VultrAPIError m \<Rightarrow> m
                            | OtherException m \<Rightarrow> ''Unexpected error: '' @ m),
          res_timestamp = ts\<rparr>, wd\<lparr>net := n\<rparr>))
   \<and> (check_ip_change E (ip_monitor u) w = ((True, Some ip), m1, w1) \<and> ip \<noteq> []
        \<and> config_domains u = [t1, t2]
        \<and> update_single_domain E w1 t1 ip = (r1, w2) \<and> res_success r1
        \<and> try_update_single_domain E w2 t2 ip = (Inl (VultrAPIError msg), w3) \<longrightarrow>
      fst (check_and_update E u w) = False
      \<and> (\<exists>r2. update_history (fst (snd (check_and_update E u w))) = update_history u @ [r1, r2]
               \<and> res_domain r2 = cfg_domain t2 \<and> res_subdomain r2 = cfg_subdomain t2
               \<and> \<not> res_success r2 \<and> res_error r2 = Some msg))
   \<and> (check_ip_change E (ip_monitor u) w = ((True, Some ip), m1, w1) \<and> ip \<noteq> []
        \<and> config_domains u = [t1, t2]
        \<and> try_update_single_domain E w1 t1 ip = (Inl (VultrAPIError msg), w2)
        \<and> clock E (net w2) = (ts, n)
        \<and> update_single_domain E (w2\<lparr>net := n\<rparr>) t2 ip = (r2, w3) \<longrightarrow>
      check_and_update E u w =
        (False,
         u\<lparr>ip_monitor := m1,
           update_history := update_history u @
             [\<lparr>res_domain = cfg_domain t1, res_subdomain = cfg_subdomain t1,
               res_success = False, res_old_ip = None, res_new_ip = None,
               res_error = Some msg, res_timestamp = ts\<rparr>, r2]\<rparr>,
         w3))"
proof -
  have shape: "update_all_domains E u w ip = (results, u', w') \<longrightarrow>
      length results = length (config_domains u)
      \<and> map res_domain results = map cfg_domain (config_domains u)
      \<and> map res_subdomain results = map cfg_subdomain (config_domains u)
      \<and> update_history u' = update_history u @ results
      \<and> (\<exists>segs. calls w' = calls w @ concat segs \<and> length segs = length (config_domains u)
            \<and> (\<forall>i<length (config_domains u).
                  \<exists>rest. segs ! i = get_records (cfg_domain (config_domains u ! i)) # rest))"
  proof
    assume run: "update_all_domains E u w ip = (results, u', w')"
    from update_all_domains_results[OF run]
    have a: "length results = length (config_domains u)
      \<and> map res_domain results = map cfg_domain (config_domains u)
      \<and> map res_subdomain results = map cfg_subdomain (config_domains u)
      \<and> update_history u' = update_history u @ results" by simp
    from update_all_loop_lookups[OF run[unfolded update_all_domains_def]]
    have b: "\<exists>segs. calls w' = calls w @ concat segs \<and> length segs = length (config_domains u)
            \<and> (\<forall>i<length (config_domains u).
                  \<exists>rest. segs ! i = get_records (cfg_domain (config_domains u ! i)) # rest)" .
    from a b show "length results = length (config_domains u)
      \<and> map res_domain results = map cfg_domain (config_domains u)
      \<and> map res_subdomain results = map cfg_subdomain (config_domains u)
      \<and> update_history u' = update_history u @ results
      \<and> (\<exists>segs. calls w' = calls w @ concat segs \<and> length segs = length (config_domains u)
            \<and> (\<forall>i<length (config_domains u).
                  \<exists>rest. segs ! i = get_records (cfg_domain (config_domains u ! i)) # rest))"
      by blast
  qed
  have base: "update_all_domains E (u\<lparr>config_domains := []\<rparr>) w ip
      = ([], u\<lparr>config_domains := []\<rparr>, w)"
    by (simp add: update_all_domains_def)
  have step: "update_all_domains E (u\<lparr>config_domains := ds\<rparr>) w ip = (rs, ua, wa)
        \<and> update_single_domain E wa t ip = (r, wb) \<longrightarrow>
      update_all_domains E (u\<lparr>config_domains := ds @ [t]\<rparr>) w ip =
        (rs @ [r], ua\<lparr>config_domains := ds @ [t], update_history := update_history ua @ [r]\<rparr>,
         wb)"
    using update_all_domains_snoc by blast
  have caught: "try_update_single_domain E wc t ip = (Inl e, wd) \<and> clock E (net wd) = (ts, n) \<longrightarrow>
      update_single_domain E wc t ip =
        (\<lparr>res_domain = cfg_domain t, res_subdomain = cfg_subdomain t, res_success = False,
          res_old_ip = None, res_new_ip = None,
          res_error = Some (case e of VultrAPIError m \<Rightarrow> m
                            | OtherException m \<Rightarrow> ''Unexpected error: '' @ m),
          res_timestamp = ts\<rparr>, wd\<lparr>net := n\<rparr>)"
    by (intro impI, elim conjE, rule update_single_domain_failed)
  have last_fails: "check_ip_change E (ip_monitor u) w = ((True, Some ip), m1, w1) \<and> ip \<noteq> []
        \<and> config_domains u = [t1, t2]
        \<and> update_single_domain E w1 t1 ip = (r1, w2) \<and> res_success r1
        \<and> try_update_single_domain E w2 t2 ip = (Inl (VultrAPIError msg), w3) \<longrightarrow>
      fst (check_and_update E u w) = False
      \<and> (\<exists>r2. update_history (fst (snd (check_and_update E u w))) = update_history u @ [r1, r2]
               \<and> res_domain r2 = cfg_domain t2 \<and> res_subdomain r2 = cfg_subdomain t2
               \<and> \<not> res_success r2 \<and> res_error r2 = Some msg)"
  proof
    assume h: "check_ip_change E (ip_monitor u) w = ((True, Some ip), m1, w1) \<and> ip \<noteq> []
        \<and> config_domains u = [t1, t2]
        \<and> update_single_domain E w1 t1 ip = (r1, w2) \<and> res_success r1
        \<and> try_update_single_domain E w2 t2 ip = (Inl (VultrAPIError msg), w3)"
    then have chg: "check_ip_change E (ip_monitor u) w = ((True, Some ip), m1, w1)"
      and ip: "ip \<noteq> []" and cfg: "config_domains u = [t1, t2]"
      and s1: "update_single_domain E w1 t1 ip = (r1, w2)" and ok1: "res_success r1"
      and e2: "try_update_single_domain E w2 t2 ip = (Inl (VultrAPIError msg), w3)"
      by blast+
    obtain r2 w4 where s2: "update_single_domain E w2 t2 ip = (r2, w4)"
      by (cases "update_single_domain E w2 t2 ip")
    from update_single_domain_raised[OF e2] s2
    have bad: "\<not> res_success r2" "res_error r2 = Some msg" by simp_all
    from update_single_domain_names[OF s2]
    have names: "res_domain r2 = cfg_domain t2" "res_subdomain r2 = cfg_subdomain t2" by simp_all
    let ?u2 = "u\<lparr>ip_monitor := m1, update_history := update_history u @ [r1, r2]\<rparr>"
    have all: "update_all_domains E (u\<lparr>ip_monitor := m1\<rparr>) w1 ip = ([r1, r2], ?u2, w4)"
      using cfg s1 s2 by (simp add: update_all_domains_def)
    have run: "check_and_update E u w = (False, ?u2, w4)"
      using check_and_update_updates[OF chg ip all] bad(1) by simp
    show "fst (check_and_update E u w) = False
      \<and> (\<exists>r2. update_history (fst (snd (check_and_update E u w))) = update_history u @ [r1, r2]
               \<and> res_domain r2 = cfg_domain t2 \<and> res_subdomain r2 = cfg_subdomain t2
               \<and> \<not> res_success r2 \<and> res_error r2 = Some msg)"
      using run bad names by (intro conjI exI[of _ r2]) simp_all
  qed
  have first_fails: "check_ip_change E (ip_monitor u) w = ((True, Some ip), m1, w1) \<and> ip \<noteq> []
        \<and> config_domains u = [t1, t2]
        \<and> try_update_single_domain E w1 t1 ip = (Inl (VultrAPIError msg), w2)
        \<and> clock E (net w2) = (ts, n)
        \<and> update_single_domain E (w2\<lparr>net := n\<rparr>) t2 ip = (r2, w3) \<longrightarrow>
      check_and_update E u w =
        (False,
         u\<lparr>ip_monitor := m1,
           update_history := update_history u @
             [\<lparr>res_domain = cfg_domain t1, res_subdomain = cfg_subdomain t1,
               res_success = False, res_old_ip = None, res_new_ip = None,
               res_error = Some msg, res_timestamp = ts\<rparr>, r2]\<rparr>,
         w3)"
  proof
    assume h: "check_ip_change E (ip_monitor u) w = ((True, Some ip), m1, w1) \<and> ip \<noteq> []
        \<and> config_domains u = [t1, t2]
        \<and> try_update_single_domain E w1 t1 ip = (Inl (VultrAPIError msg), w2)
        \<and> clock E (net w2) = (ts, n)
        \<and> update_single_domain E (w2\<lparr>net := n\<rparr>) t2 ip = (r2, w3)"
    then have chg: "check_ip_change E (ip_monitor u) w = ((True, Some ip), m1, w1)"
      and ip: "ip \<noteq> []" and cfg: "config_domains u = [t1, t2]"
      and e1: "try_update_single_domain E w1 t1 ip = (Inl (VultrAPIError msg), w2)"
      and c: "clock E (net w2) = (ts, n)"
      and s2: "update_single_domain E (w2\<lparr>net := n\<rparr>) t2 ip = (r2, w3)"
      by blast+
    let ?r1 = "\<lparr>res_domain = cfg_domain t1, res_subdomain = cfg_subdomain t1,
               res_success = False, res_old_ip = None, res_new_ip = None,
               res_error = Some msg, res_timestamp = ts\<rparr>"
    have s1: "update_single_domain E w1 t1 ip = (?r1, w2\<lparr>net := n\<rparr>)"
      using update_single_domain_failed[OF e1 c] by simp
    let ?u2 = "u\<lparr>ip_monitor := m1, update_history := update_history u @ [?r1, r2]\<rparr>"
    have all: "update_all_domains E (u\<lparr>ip_monitor := m1\<rparr>) w1 ip = ([?r1, r2], ?u2, w3)"
      using cfg s1 s2 by (simp add: update_all_domains_def)
    show "check_and_update E u w = (False, ?u2, w3)"
      using check_and_update_updates[OF chg ip all] by simp
  qed
  show ?thesis
    by (intro conjI) (fact shape base step caught last_fails first_fails)+
qed

theorem provider_error_does_not_abort_witness:
  "check_and_update replay (new_updater [blog_target, home_target]) w_fail_first =
     (False,
      \<lparr>config_domains = [blog_target, home_target],
       ip_monitor = \<lparr>current_ip = Some ''203.0.113.7'', last_check = Some 0, last_update = None\<rparr>,
       update_history =
         [\<lparr>res_domain = ''example.com'', res_subdomain = ''blog'', res_success = False,
           res_old_ip = None, res_new_ip = None,
           res_error = Some ''VULTR API error: Rate limit exceeded'', res_timestamp = 1\<rparr>,
          \<lparr>res_domain = ''example.com'', res_subdomain = ''home'', res_success = True,
           res_old_ip = Some ''198.51.100.4'', res_new_ip = Some ''203.0.113.7'',
           res_error = None, res_timestamp = 2\<rparr>]\<rparr>,
      \<lparr>net = \<lparr>api_replies = [], echo_replies = [], ticks = 3\<rparr>,
       calls = [get_records ''example.com'', get_records ''example.com'',
                get_records ''example.com'',
                patch_record ''example.com'' ''rec-1'' [(''data'', JStr ''203.0.113.7'')]]\<rparr>)
   \<and> fst (check_and_update replay (new_updater [home_target, blog_target]) w_cycle) = False
   \<and> map (\<lambda>r. (res_subdomain r, res_success r, res_error r))
         (update_history (fst (snd (check_and_update replay
            (new_updater [home_target, blog_target]) w_cycle))))
       = [(''home'', True, None),
          (''blog'', False, Some ''Request failed: connection refused'')]"
proof -
  let ?m1 = "\<lparr>current_ip = Some ''203.0.113.7'', last_check = Some 0, last_update = None\<rparr>"
  let ?msg = "''VULTR API error: Rate limit exceeded''"
  let ?v = "new_updater [blog_target, home_target]"
  let ?v1 = "\<lparr>net = \<lparr>api_replies = [Raises (VultrAPIError ?msg),
                               listing [home], listing [home], no_content],
                echo_replies = [], ticks = 1\<rparr>, calls = []\<rparr>"
  let ?v2 = "\<lparr>net = \<lparr>api_replies = [listing [home], listing [home], no_content],
                echo_replies = [], ticks = 1\<rparr>, calls = [get_records ''example.com'']\<rparr>"
  let ?n = "\<lparr>api_replies = [listing [home], listing [home], no_content],
             echo_replies = [], ticks = 2\<rparr>"
  let ?s2 = "\<lparr>res_domain = ''example.com'', res_subdomain = ''home'', res_success = True,
       res_old_ip = Some ''198.51.100.4'', res_new_ip = Some ''203.0.113.7'',
       res_error = None, res_timestamp = 2\<rparr>"
  let ?v3 = "\<lparr>net = \<lparr>api_replies = [], echo_replies = [], ticks = 3\<rparr>,
       calls = [get_records ''example.com'', get_records ''example.com'',
                get_records ''example.com'',
                patch_record ''example.com'' ''rec-1'' [(''data'', JStr ''203.0.113.7'')]]\<rparr>"
  have hyp1: "check_ip_change replay (ip_monitor ?v) w_fail_first
          = ((True, Some ''203.0.113.7''), ?m1, ?v1)
      \<and> ''203.0.113.7'' \<noteq> []
      \<and> config_domains ?v = [blog_target, home_target]
      \<and> try_update_single_domain replay ?v1 blog_target ''203.0.113.7''
          = (Inl (VultrAPIError ?msg), ?v2)
      \<and> clock replay (net ?v2) = (1, ?n)
      \<and> update_single_domain replay (?v2\<lparr>net := ?n\<rparr>) home_target ''203.0.113.7'' = (?s2, ?v3)"
    using fail_first_detects_change fail_first_blog_raises fail_first_updates_home
    by (simp add: new_updater_def replay_clock)
  have first: "check_and_update replay ?v w_fail_first =
        (False,
         ?v\<lparr>ip_monitor := ?m1,
           update_history := update_history ?v @
             [\<lparr>res_domain = cfg_domain blog_target, res_subdomain = cfg_subdomain blog_target,
               res_success = False, res_old_ip = None, res_new_ip = None,
               res_error = Some ?msg, res_timestamp = 1\<rparr>, ?s2]\<rparr>,
         ?v3)"
    using provider_error_does_not_abort[where E = replay and u = ?v and w = w_fail_first
        and ip = "''203.0.113.7''" and ?m1.0 = ?m1 and ?w1.0 = ?v1 and ?t1.0 = blog_target
        and ?t2.0 = home_target and msg = ?msg and ?w2.0 = ?v2 and ts = 1 and n = ?n
        and ?r2.0 = ?s2 and ?w3.0 = ?v3] hyp1
    by blast
  let ?u = "new_updater [home_target, blog_target]"
  let ?w1 = "\<lparr>net = \<lparr>api_replies = [listing [home], listing [home], no_content],
                     echo_replies = [], ticks = 1\<rparr>, calls = []\<rparr>"
  let ?r1 = "\<lparr>res_domain = ''example.com'', res_subdomain = ''home'', res_success = True,
       res_old_ip = Some ''198.51.100.4'', res_new_ip = Some ''203.0.113.7'',
       res_error = None, res_timestamp = 1\<rparr>"
  let ?calls = "[get_records ''example.com'', get_records ''example.com'',
                patch_record ''example.com'' ''rec-1'' [(''data'', JStr ''203.0.113.7'')]]"
  let ?w2 = "\<lparr>net = \<lparr>api_replies = [], echo_replies = [], ticks = 2\<rparr>, calls = ?calls\<rparr>"
  let ?w3 = "\<lparr>net = \<lparr>api_replies = [], echo_replies = [], ticks = 2\<rparr>,
              calls = ?calls @ [get_records ''example.com'']\<rparr>"
  have hyp2: "check_ip_change replay (ip_monitor ?u) w_cycle = ((True, Some ''203.0.113.7''), ?m1, ?w1)
      \<and> ''203.0.113.7'' \<noteq> []
      \<and> config_domains ?u = [home_target, blog_target]
      \<and> update_single_domain replay ?w1 home_target ''203.0.113.7'' = (?r1, ?w2)
      \<and> res_success ?r1
      \<and> try_update_single_domain replay ?w2 blog_target ''203.0.113.7''
          = (Inl (VultrAPIError ''Request failed: connection refused''), ?w3)"
    using cycle_detects_change cycle_updates_home
      cycle_blog_raises[of "[]" 2 ?calls]
    by (simp add: new_updater_def)
  have second: "fst (check_and_update replay ?u w_cycle) = False
      \<and> (\<exists>r2. update_history (fst (snd (check_and_update replay ?u w_cycle)))
                 = update_history ?u @ [?r1, r2]
               \<and> res_domain r2 = cfg_domain blog_target
               \<and> res_subdomain r2 = cfg_subdomain blog_target
               \<and> \<not> res_success r2
               \<and> res_error r2 = Some ''Request failed: connection refused'')"
    using provider_error_does_not_abort[where E = replay and u = ?u and w = w_cycle
        and ip = "''203.0.113.7''" and ?m1.0 = ?m1 and ?w1.0 = ?w1 and ?t1.0 = home_target
        and ?t2.0 = blog_target and ?r1.0 = ?r1 and ?w2.0 = ?w2
        and msg = "''Request failed: connection refused''" and ?w3.0 = ?w3] hyp2
    by blast
  from first have first': "check_and_update replay ?v w_fail_first =
     (False,
      \<lparr>config_domains = [blog_target, home_target], ip_monitor = ?m1,
       update_history =
         [\<lparr>res_domain = ''example.com'', res_subdomain = ''blog'', res_success = False,
           res_old_ip = None, res_new_ip = None,
           res_error = Some ?msg, res_timestamp = 1\<rparr>, ?s2]\<rparr>, ?v3)"
    by (simp add: new_updater_def blog_target_def)
  from second have second': "fst (check_and_update replay ?u w_cycle) = False
   \<and> map (\<lambda>r. (res_subdomain r, res_success r, res_error r))
         (update_history (fst (snd (check_and_update replay ?u w_cycle))))
       = [(''home'', True, None),
          (''blog'', False, Some ''Request failed: connection refused'')]"
    by (auto simp: new_updater_def blog_target_def)
  show ?thesis using first' second' by simp
qed

text \<open>
  C10. When the resolver returns an address that is not the stored one (or nothing is
  stored yet), \<open>check_ip_change\<close> stores it before any request goes to the provider, and it
  is still stored when \<open>check_and_update\<close> returns, whatever the outcomes of the target
  updates. A next cycle in which the resolver returns the same address therefore returns
  \<open>True\<close> and sends nothing to the provider: the failed updates are not retried.
\<close>

theorem current_ip_stored_at_detection:
  assumes "clock E (net w) = (t, n1)" and "get_public_ip E n1 = (Some ip, n2)"
      and "current_ip (ip_monitor u) \<noteq> Some ip"
      and "check_and_update E u w = (ok, u', w')"
  shows "(\<exists>m1 w1. check_ip_change E (ip_monitor u) w = ((True, Some ip), m1, w1)
            \<and> current_ip m1 = Some ip \<and> calls w1 = calls w)
       \<and> current_ip (ip_monitor u') = Some ip
       \<and> (\<forall>t' n3 n4. clock E (net w') = (t', n3) \<and> get_public_ip E n3 = (Some ip, n4) \<longrightarrow>
             fst (check_and_update E u' w') = True
             \<and> calls (snd (snd (check_and_update E u' w'))) = calls w'
             \<and> update_history (fst (snd (check_and_update E u' w'))) = update_history u')"
proof -
  let ?m1 = "(ip_monitor u)\<lparr>last_check := Some t, current_ip := Some ip\<rparr>"
  let ?w1 = "w\<lparr>net := n2\<rparr>"
  have chg: "check_ip_change E (ip_monitor u) w = ((True, Some ip), ?m1, ?w1)"
    using check_ip_change_new[OF assms(1,2,3)] .
  have first: "\<exists>m1 w1. check_ip_change E (ip_monitor u) w = ((True, Some ip), m1, w1)
            \<and> current_ip m1 = Some ip \<and> calls w1 = calls w"
    using chg by simp
  have stored: "current_ip (ip_monitor u') = Some ip"
  proof (cases "ip = []")
    case True
    then have "check_and_update E u w = (True, u\<lparr>ip_monitor := ?m1\<rparr>, ?w1)"
      using chg by (simp add: check_and_update_def)
    with assms(4) show ?thesis by auto
  next
    case False
    obtain results u2 w2 where
      all: "update_all_domains E (u\<lparr>ip_monitor := ?m1\<rparr>) ?w1 ip = (results, u2, w2)"
      by (cases "update_all_domains E (u\<lparr>ip_monitor := ?m1\<rparr>) ?w1 ip") auto
    from update_all_domains_results[OF all] have m: "ip_monitor u2 = ?m1" by simp
    show ?thesis
      using check_and_update_updates[OF chg False all] assms(4) m
      by (auto split: if_splits)
  qed
  have "fst (check_and_update E u' w') = True
             \<and> calls (snd (snd (check_and_update E u' w'))) = calls w'
             \<and> update_history (fst (snd (check_and_update E u' w'))) = update_history u'"
    if nxt: "clock E (net w') = (t', n3) \<and> get_public_ip E n3 = (Some ip, n4)" for t' n3 n4
  proof -
    from nxt have c: "clock E (net w') = (t', n3)" and g: "get_public_ip E n3 = (Some ip, n4)"
      by simp_all
    from check_and_update_idle[OF check_ip_change_same[OF c g stored]]
    show ?thesis by simp
  qed
  with first stored show ?thesis by blast
qed

theorem current_ip_stored_at_detection_witness:
  "(let first = check_and_update replay (new_updater [blog_target]) w_retry;
        second = check_and_update replay (fst (snd first)) (snd (snd first))
    in fst first = False
       \<and> current_ip (ip_monitor (fst (snd first))) = Some ''203.0.113.7''
       \<and> fst second = True
       \<and> calls (snd (snd second)) = calls (snd (snd first))
       \<and> calls (snd (snd first)) = [get_records ''example.com''])"
proof -
  let ?u = "new_updater [blog_target]"
  let ?m1 = "\<lparr>current_ip = Some ''203.0.113.7'', last_check = Some 0, last_update = None\<rparr>"
  let ?w1 = "\<lparr>net = \<lparr>api_replies = [], echo_replies = [Some ''203.0.113.7''], ticks = 1\<rparr>,
              calls = []\<rparr>"
  let ?r = "\<lparr>res_domain = ''example.com'', res_subdomain = ''blog'', res_success = False,
       res_old_ip = None, res_new_ip = None,
       res_error = Some ''Request failed: connection refused'', res_timestamp = 1\<rparr>"
  let ?u' = "\<lparr>config_domains = [blog_target], ip_monitor = ?m1, update_history = [?r]\<rparr>"
  let ?w' = "\<lparr>net = \<lparr>api_replies = [], echo_replies = [Some ''203.0.113.7''], ticks = 2\<rparr>,
              calls = [get_records ''example.com'']\<rparr>"
  have chg: "check_ip_change replay (ip_monitor ?u) w_retry = ((True, Some ''203.0.113.7''), ?m1, ?w1)"
    using retry_detects_change by (simp add: new_updater_def)
  have all: "update_all_domains replay (?u\<lparr>ip_monitor := ?m1\<rparr>) ?w1 ''203.0.113.7''
           = ([?r], ?u', ?w')"
    by (simp add: update_all_domains_def new_updater_def retry_updates_blog)
  have first: "check_and_update replay ?u w_retry = (False, ?u', ?w')"
    using check_and_update_updates[OF chg _ all] by simp
  have c: "clock replay (net w_retry)
        = (0, \<lparr>api_replies = [], echo_replies = [Some ''203.0.113.7'', Some ''203.0.113.7''],
                ticks = 1\<rparr>)"
    by (simp add: w_retry_def start_def replay_clock)
  have g: "get_public_ip replay
         \<lparr>api_replies = [], echo_replies = [Some ''203.0.113.7'', Some ''203.0.113.7''], ticks = 1\<rparr>
        = (Some ''203.0.113.7'',
           \<lparr>api_replies = [], echo_replies = [Some ''203.0.113.7''], ticks = 1\<rparr>)"
    by (simp add: get_public_ip_def IP_SERVICES_def replay_ip_service strip_address
        address_is_valid)
  have n: "current_ip (ip_monitor ?u) \<noteq> Some ''203.0.113.7''"
    by (simp add: new_updater_def new_monitor_def)
  have c': "clock replay (net ?w')
        = (2, \<lparr>api_replies = [], echo_replies = [Some ''203.0.113.7''], ticks = 3\<rparr>)"
    by (simp add: replay_clock)
  have g': "get_public_ip replay
         \<lparr>api_replies = [], echo_replies = [Some ''203.0.113.7''], ticks = 3\<rparr>
        = (Some ''203.0.113.7'', \<lparr>api_replies = [], echo_replies = [], ticks = 3\<rparr>)"
    by (simp add: get_public_ip_def IP_SERVICES_def replay_ip_service strip_address
        address_is_valid)
  from current_ip_stored_at_detection[OF c g n first] c' g'
  have "current_ip (ip_monitor ?u') = Some ''203.0.113.7''
      \<and> fst (check_and_update replay ?u' ?w') = True
      \<and> calls (snd (snd (check_and_update replay ?u' ?w'))) = calls ?w'"
    by blast
  then show ?thesis
    using first by (simp add: Let_def)
qed

end
